theory Spec2Isabelle
  imports Main
begin

section \<open>JavaScript values\<close>

text \<open>
  The node works on untyped JSON (\<open>IDataObject\<close>). A value is one of the JSON
  forms or \<open>undefined\<close>, which is what reading a missing property gives. An object is
  an association list in its property order, in which a key occurs once.
  Numbers are the integers the node uses (limits, positions, sizes).
\<close>

datatype json =
    JUndefined
  | JNull
  | JBool bool
  | JNum int
  | JStr string
  | JArr "json list"
  | JObj "(string \<times> json) list"

type_synonym IDataObject = "(string \<times> json) list"

definition field :: "IDataObject \<Rightarrow> string \<Rightarrow> json" where
  "field obj k = (case map_of obj k of None \<Rightarrow> JUndefined | Some v \<Rightarrow> v)"

text \<open>\<open>if (x)\<close>, \<open>!x\<close>, \<open>x && y\<close>, \<open>x || y\<close>: the truthiness of a value.\<close>

fun truthy :: "json \<Rightarrow> bool" where
  "truthy JUndefined = False"
| "truthy JNull = False"
| "truthy (JBool b) = b"
| "truthy (JNum n) = (n \<noteq> 0)"
| "truthy (JStr s) = (s \<noteq> [])"
| "truthy (JArr xs) = True"
| "truthy (JObj kvs) = True"

text \<open>
  \<open>(x as IDataObject)?.k\<close>: optional chaining stops at \<open>null\<close> and \<open>undefined\<close>;
  a primitive or an array has no own property of the names read here.
\<close>

fun optProp :: "json \<Rightarrow> string \<Rightarrow> json" where
  "optProp (JObj kvs) k = field kvs k"
| "optProp v k = JUndefined"

text \<open>
  \<open>{ ...obj, k: v }\<close>: the property keeps its place when \<open>obj\<close> has it already and
  is added last otherwise.
\<close>

fun objPut :: "IDataObject \<Rightarrow> string \<Rightarrow> json \<Rightarrow> IDataObject" where
  "objPut [] k v = [(k, v)]"
| "objPut ((k', v') # rest) k v =
     (if k' = k then (k, v) # rest else (k', v') # objPut rest k v)"

subsection \<open>Strings\<close>

text \<open>
  A string is a list of code units below 256 (Latin-1). \<open>toLowerCase\<close> maps
  \<open>A\<close>..\<open>Z\<close> and the upper-case letters of Latin-1 to their lower-case forms, which
  differ from them in bit 5 only; \<open>trim\<close> removes the white space and line
  terminators of that range from both ends.
\<close>

definition toLowerCase_unit :: "char \<Rightarrow> char" where
  "toLowerCase_unit c =
     (let n = (of_char c :: nat)
      in if (65 \<le> n \<and> n \<le> 90) \<or> (192 \<le> n \<and> n \<le> 222 \<and> n \<noteq> 215)
         then (case c of Char b0 b1 b2 b3 b4 b5 b6 b7 \<Rightarrow> Char b0 b1 b2 b3 b4 True b6 b7)
         else c)"

definition toLowerCase :: "string \<Rightarrow> string" where
  "toLowerCase s = map toLowerCase_unit s"

definition isWhiteSpace :: "char \<Rightarrow> bool" where
  "isWhiteSpace c = ((of_char c :: nat) \<in> {9, 10, 11, 12, 13, 32, 160})"

definition trim :: "string \<Rightarrow> string" where
  "trim s = rev (dropWhile isWhiteSpace (rev (dropWhile isWhiteSpace s)))"

definition startsWith :: "string \<Rightarrow> string \<Rightarrow> bool" where
  "startsWith s p = (take (length p) s = p)"

definition endsWith :: "string \<Rightarrow> string \<Rightarrow> bool" where
  "endsWith s p = (length p \<le> length s \<and> drop (length s - length p) s = p)"

text \<open>\<open>s.split(',')\<close>: the pieces between the commas, the empty ones included.\<close>

fun split_comma :: "string \<Rightarrow> string list" where
  "split_comma [] = [[]]"
| "split_comma (c # cs) =
     (if c = CHR '','' then [] # split_comma cs
      else (case split_comma cs of
              [] \<Rightarrow> [[c]]
            | piece # pieces \<Rightarrow> (c # piece) # pieces))"

subsection \<open>Object.keys\<close>

text \<open>
  \<open>Object.keys\<close> lists the keys that are array indices (canonical decimal numerals
  below \<open>2^32 - 1\<close>) first, in ascending numeric order, and the other keys after them in
  the order they were added.
\<close>

definition isDigit :: "char \<Rightarrow> bool" where
  "isDigit c = (48 \<le> (of_char c :: nat) \<and> (of_char c :: nat) \<le> 57)"

definition decimalValue :: "string \<Rightarrow> nat" where
  "decimalValue s = foldl (\<lambda>acc c. 10 * acc + ((of_char c :: nat) - 48)) 0 s"

definition arrayIndex :: "string \<Rightarrow> nat option" where
  "arrayIndex s =
     (if s \<noteq> [] \<and> list_all isDigit s \<and> (s = ''0'' \<or> hd s \<noteq> CHR ''0'')
         \<and> length s \<le> 10 \<and> decimalValue s < 4294967295
      then Some (decimalValue s) else None)"

definition objectKeys :: "(string \<times> 'a) list \<Rightarrow> string list" where
  "objectKeys obj =
     (let ks = map fst obj
      in sort_key decimalValue (filter (\<lambda>k. arrayIndex k \<noteq> None) ks)
         @ filter (\<lambda>k. arrayIndex k = None) ks)"

section \<open>Errors, requests and the host\<close>

text \<open>
  Every \<open>throw\<close> of the source is a value: \<open>NodeApiError m e\<close> is
  \<open>new NodeApiError(node, e, {message: m})\<close>, \<open>Error m\<close> is \<open>new Error(m)\<close>,
  \<open>JmapError p\<close> is \<open>new Error(`JMAP error: ${JSON.stringify(p)}`)\<close>, the only error
  that carries a server payload, \<open>HttpError e\<close> is an error of the HTTP helper that
  reaches the caller unwrapped, and \<open>TypeError\<close> is what reading a property of
  \<open>undefined\<close> raises.

  A TypeScript cast \<open>x as T\<close> checks nothing. What \<open>queryEmails\<close>, \<open>getEmails\<close>
  and the poller do with a payload is therefore what JavaScript does with any value:
  \<open>jsGet\<close> is \<open>x.k\<close> for the property names read here, \<open>jsLength\<close> is \<open>x.length\<close>,
  \<open>jsFirst\<close> is \<open>x[0]\<close>, \<open>asArray\<close> is what calling an array method on \<open>x\<close> needs, and
  \<open>jsToString\<close> is the string a value becomes as a computed key (numbers are integers
  here and print in decimal, as JavaScript prints them below \<open>10^21\<close>). \<open>asString\<close> is the
  receiver of a string method; \<open>asObjects\<close> reads a list whose entries are taken as
  objects.
\<close>

datatype error =
    NodeApiError string json
  | Error string
  | JmapError IDataObject
  | HttpError json
  | TypeError

definition asString :: "json \<Rightarrow> error + string" where
  "asString v = (case v of JStr s \<Rightarrow> Inr s | _ \<Rightarrow> Inl TypeError)"

definition asArray :: "json \<Rightarrow> error + json list" where
  "asArray v = (case v of JArr xs \<Rightarrow> Inr xs | _ \<Rightarrow> Inl TypeError)"

fun objectsOf :: "json list \<Rightarrow> error + IDataObject list" where
  "objectsOf [] = Inr []"
| "objectsOf (JObj kvs # rest) =
     (case objectsOf rest of Inl e \<Rightarrow> Inl e | Inr objs \<Rightarrow> Inr (kvs # objs))"
| "objectsOf (v # rest) = Inl TypeError"

fun jsGet :: "json \<Rightarrow> string \<Rightarrow> error + json" where
  "jsGet JUndefined k = Inl TypeError"
| "jsGet JNull k = Inl TypeError"
| "jsGet (JObj kvs) k = Inr (field kvs k)"
| "jsGet v k = Inr JUndefined"

fun jsLength :: "json \<Rightarrow> error + json" where
  "jsLength JUndefined = Inl TypeError"
| "jsLength JNull = Inl TypeError"
| "jsLength (JArr xs) = Inr (JNum (int (length xs)))"
| "jsLength (JStr s) = Inr (JNum (int (length s)))"
| "jsLength (JObj kvs) = Inr (field kvs ''length'')"
| "jsLength v = Inr JUndefined"

fun jsFirst :: "json \<Rightarrow> error + json" where
  "jsFirst JUndefined = Inl TypeError"
| "jsFirst JNull = Inl TypeError"
| "jsFirst (JArr []) = Inr JUndefined"
| "jsFirst (JArr (x # xs)) = Inr x"
| "jsFirst (JStr []) = Inr JUndefined"
| "jsFirst (JStr (c # cs)) = Inr (JStr [c])"
| "jsFirst (JObj kvs) = Inr (field kvs ''0'')"
| "jsFirst v = Inr JUndefined"

function decimalOfNat :: "nat \<Rightarrow> string" where
  "decimalOfNat n =
     (if n < 10 then [''0123456789'' ! n]
      else decimalOfNat (n div 10) @ [''0123456789'' ! (n mod 10)])"
  by pat_completeness auto
termination
  by (relation "measure id") auto

declare decimalOfNat.simps [simp del]

fun joinComma :: "string list \<Rightarrow> string" where
  "joinComma [] = []"
| "joinComma [s] = s"
| "joinComma (s # rest) = s @ '','' @ joinComma rest"

fun jsToString :: "json \<Rightarrow> string" where
  "jsToString JUndefined = ''undefined''"
| "jsToString JNull = ''null''"
| "jsToString (JBool b) = (if b then ''true'' else ''false'')"
| "jsToString (JNum n) =
     (if n < 0 then CHR ''-'' # decimalOfNat (nat (- n)) else decimalOfNat (nat n))"
| "jsToString (JStr s) = s"
| "jsToString (JArr xs) =
     joinComma (map (\<lambda>x. if x = JUndefined \<or> x = JNull then [] else jsToString x) xs)"
| "jsToString (JObj kvs) = ''[object Object]''"

definition asObjects :: "json \<Rightarrow> error + IDataObject list" where
  "asObjects v = (case v of JArr xs \<Rightarrow> objectsOf xs | _ \<Rightarrow> Inl TypeError)"

record IJmapAccount =
  name :: string
  isPersonal :: bool
  isReadOnly :: bool
  accountCapabilities :: "(string \<times> IDataObject) list"

record IJmapSession =
  accounts :: "(string \<times> IJmapAccount) list"
  primaryAccounts :: "(string \<times> string) list option"
  username :: string
  apiUrl :: string
  downloadUrl :: string
  uploadUrl :: string
  eventSourceUrl :: string
  state :: string
  capabilities :: "(string \<times> IDataObject) list"

type_synonym methodCall = "string \<times> IDataObject \<times> string"

record IJmapRequest =
  usingCaps :: "string list"
  methodCalls :: "methodCall list"

record IJmapResponse =
  methodResponses :: "methodCall list"
  sessionState :: string

definition CORE :: string where "CORE = ''urn:ietf:params:jmap:core''"
definition MAIL :: string where "MAIL = ''urn:ietf:params:jmap:mail''"
definition SUBMISSION :: string where "SUBMISSION = ''urn:ietf:params:jmap:submission''"

text \<open>
  \<open>makeJmapRequest\<close> and the binary download are the transport. Its three credential
  strategies only choose the headers, so the model keeps what is sent and what comes
  back: a request is the session \<open>GET\<close>, an API \<open>POST\<close> with its body, or a blob
  download. The server is any function of the requests sent so far and the current
  one; a failure of the HTTP helper is \<open>Inl\<close> with the helper's error object.
\<close>

datatype request =
    SessionGet
  | ApiPost IJmapRequest
  | BlobGet string json json json

record host =
  sessionReply :: "request list \<Rightarrow> json + IJmapSession"
  apiReply :: "request list \<Rightarrow> IJmapRequest \<Rightarrow> json + IJmapResponse"
  blobReply :: "request list \<Rightarrow> string \<Rightarrow> json \<Rightarrow> json \<Rightarrow> json \<Rightarrow> json + string"
  dateGetTime :: "json \<Rightarrow> int option"

text \<open>
  The state an operation can change: the requests sent, in order, and the poller's
  static data (\<open>webhookData.lastProcessedTime\<close>, \<open>undefined\<close> before the first
  successful cycle). The static data object is the host's; an assignment to it is the
  effect recorded here, and the next cycle reads what the last one assigned.
\<close>

record world =
  lastProcessedTime :: json
  sent :: "request list"

type_synonym 'a io = "world \<Rightarrow> (error + 'a) \<times> world"

definition io_return :: "'a \<Rightarrow> 'a io" where
  "io_return x w = (Inr x, w)"

definition io_throw :: "error \<Rightarrow> 'a io" where
  "io_throw e w = (Inl e, w)"

definition io_lift :: "error + 'a \<Rightarrow> 'a io" where
  "io_lift r w = (r, w)"

definition io_bind :: "'a io \<Rightarrow> ('a \<Rightarrow> 'b io) \<Rightarrow> 'b io" where
  "io_bind m f w = (case m w of (Inl e, w') \<Rightarrow> (Inl e, w') | (Inr x, w') \<Rightarrow> f x w')"

section \<open>GenericFunctions\<close>

definition getJmapSession :: "host \<Rightarrow> IJmapSession io" where
  "getJmapSession h w =
     (case sessionReply h (sent w) of
        Inl e \<Rightarrow> (Inl (NodeApiError ''Failed to get JMAP session'' e),
                  w\<lparr>sent := sent w @ [SessionGet]\<rparr>)
      | Inr session \<Rightarrow> (Inr session, w\<lparr>sent := sent w @ [SessionGet]\<rparr>))"

definition jmapApiRequest :: "host \<Rightarrow> methodCall list \<Rightarrow> string list \<Rightarrow> IJmapResponse io" where
  "jmapApiRequest h calls caps w =
     (let body = \<lparr>usingCaps = caps, methodCalls = calls\<rparr>
      in case apiReply h (sent w) body of
           Inl e \<Rightarrow> (Inl (NodeApiError ''JMAP API request failed'' e),
                     w\<lparr>sent := sent w @ [ApiPost body]\<rparr>)
         | Inr response \<Rightarrow> (Inr response, w\<lparr>sent := sent w @ [ApiPost body]\<rparr>))"

definition defaultUsing :: "string list" where
  "defaultUsing = [CORE, MAIL]"

text \<open>
  \<open>session.primaryAccounts && session.primaryAccounts[mailCapability]\<close>: the entry
  read, \<open>None\<close> when the map or the entry is missing. The test takes it when it is
  truthy, that is a non-empty string.
\<close>

definition getPrimaryAccountId :: "host \<Rightarrow> string io" where
  "getPrimaryAccountId h =
     io_bind (getJmapSession h) (\<lambda>session.
       let accountIds = objectKeys (accounts session);
           otherwise = (case accountIds of
                          accountId # _ \<Rightarrow> io_return accountId
                        | [] \<Rightarrow> io_throw (Error ''No JMAP account found''))
       in case (case primaryAccounts session of
                  None \<Rightarrow> None
                | Some primary \<Rightarrow> map_of primary MAIL) of
            Some accountId \<Rightarrow> if accountId \<noteq> [] then io_return accountId else otherwise
          | None \<Rightarrow> otherwise)"

text \<open>
  The single-call operations read \<open>response.methodResponses[0]\<close>; on an empty array
  that is \<open>undefined\<close> and reading its \<open>[0]\<close> raises.
\<close>

definition getMailboxes :: "host \<Rightarrow> string \<Rightarrow> IDataObject list io" where
  "getMailboxes h accountId =
     io_bind (jmapApiRequest h [(''Mailbox/get'', [(''accountId'', JStr accountId)], ''c1'')]
                defaultUsing)
       (\<lambda>response. case methodResponses response of
            [] \<Rightarrow> io_throw TypeError
          | methodResponse # _ \<Rightarrow>
              if fst methodResponse = ''Mailbox/get''
              then io_lift (asObjects (field (fst (snd methodResponse)) ''list''))
              else io_throw (Error ''Failed to get mailboxes''))"

definition findMailboxByName :: "host \<Rightarrow> string \<Rightarrow> string \<Rightarrow> IDataObject option io" where
  "findMailboxByName h accountId nm =
     io_bind (getMailboxes h accountId)
       (\<lambda>mailboxes. io_return (find (\<lambda>mb. field mb ''name'' = JStr nm) mailboxes))"

definition findMailboxByRole :: "host \<Rightarrow> string \<Rightarrow> string \<Rightarrow> IDataObject option io" where
  "findMailboxByRole h accountId role =
     io_bind (getMailboxes h accountId)
       (\<lambda>mailboxes. io_return (find (\<lambda>mb. field mb ''role'' = JStr role) mailboxes))"

record queryResult =
  ids :: json
  total :: json

definition queryCall :: "string \<Rightarrow> IDataObject \<Rightarrow> IDataObject list \<Rightarrow> int \<Rightarrow> int \<Rightarrow> methodCall" where
  "queryCall accountId filter' sort' limit position =
     (''Email/query'',
      [(''accountId'', JStr accountId), (''filter'', JObj filter'),
       (''sort'', JArr (map JObj sort')), (''limit'', JNum limit),
       (''position'', JNum position)],
      ''c1'')"

definition queryEmails ::
  "host \<Rightarrow> string \<Rightarrow> IDataObject \<Rightarrow> IDataObject list \<Rightarrow> int \<Rightarrow> int \<Rightarrow> queryResult io" where
  "queryEmails h accountId filter' sort' limit position =
     io_bind (jmapApiRequest h [queryCall accountId filter' sort' limit position] defaultUsing)
       (\<lambda>response. case methodResponses response of
            [] \<Rightarrow> io_throw TypeError
          | methodResponse # _ \<Rightarrow>
              if fst methodResponse = ''Email/query''
              then (let result = fst (snd methodResponse)
                    in io_return \<lparr>ids = field result ''ids'', total = field result ''total''\<rparr>)
              else io_throw (Error ''Failed to query emails''))"

definition getCall :: "string \<Rightarrow> json \<Rightarrow> string list \<Rightarrow> bool \<Rightarrow> bool \<Rightarrow> methodCall" where
  "getCall accountId is properties fetchTextBodyValues fetchHTMLBodyValues =
     (''Email/get'',
      [(''accountId'', JStr accountId), (''ids'', is),
       (''properties'', JArr (map JStr properties)),
       (''fetchTextBodyValues'', JBool fetchTextBodyValues),
       (''fetchHTMLBodyValues'', JBool fetchHTMLBodyValues),
       (''maxBodyValueBytes'', JNum 1048576)],
      ''c1'')"

definition getEmails ::
  "host \<Rightarrow> string \<Rightarrow> json \<Rightarrow> string list \<Rightarrow> bool \<Rightarrow> bool \<Rightarrow> json io" where
  "getEmails h accountId is properties fetchTextBodyValues fetchHTMLBodyValues =
     io_bind (jmapApiRequest h
                [getCall accountId is properties fetchTextBodyValues fetchHTMLBodyValues]
                defaultUsing)
       (\<lambda>response. case methodResponses response of
            [] \<Rightarrow> io_throw TypeError
          | methodResponse # _ \<Rightarrow>
              if fst methodResponse = ''Email/get''
              then io_return (field (fst (snd methodResponse)) ''list'')
              else io_throw (Error ''Failed to get emails''))"

definition draftOf :: "IDataObject \<Rightarrow> IDataObject \<Rightarrow> IDataObject" where
  "draftOf email draftsMailbox =
     objPut (objPut email ''mailboxIds''
               (JObj [(jsToString (field draftsMailbox ''id''), JBool True)]))
       ''keywords'' (JObj [(''$draft'', JBool True)])"

definition sendCalls :: "string \<Rightarrow> IDataObject \<Rightarrow> string \<Rightarrow> methodCall list" where
  "sendCalls accountId emailCreate identityId =
     [(''Email/set'',
       [(''accountId'', JStr accountId), (''create'', JObj [(''draft'', JObj emailCreate)])],
       ''c1''),
      (''EmailSubmission/set'',
       [(''accountId'', JStr accountId),
        (''create'', JObj [(''send'', JObj [(''emailId'', JStr ''#draft''),
                                           (''identityId'', JStr identityId)])]),
        (''onSuccessDestroyEmail'', JArr [JStr ''#send''])],
       ''c2'')]"

definition sendEmail :: "host \<Rightarrow> string \<Rightarrow> IDataObject \<Rightarrow> string \<Rightarrow> IDataObject io" where
  "sendEmail h accountId email identityId =
     io_bind (findMailboxByRole h accountId ''drafts'') (\<lambda>draftsMailbox.
       case draftsMailbox of
         None \<Rightarrow> io_throw (Error ''Drafts mailbox not found'')
       | Some drafts \<Rightarrow>
           io_bind (jmapApiRequest h (sendCalls accountId (draftOf email drafts) identityId)
                      [CORE, MAIL, SUBMISSION])
             (\<lambda>response.
                case find (\<lambda>methodResponse. fst methodResponse = ''error'')
                       (methodResponses response) of
                  Some methodResponse \<Rightarrow> io_throw (JmapError (fst (snd methodResponse)))
                | None \<Rightarrow>
                    (case methodResponses response of
                       first # second # _ \<Rightarrow> io_return (fst (snd second))
                     | _ \<Rightarrow> io_throw TypeError)))"

definition createDraft :: "host \<Rightarrow> string \<Rightarrow> IDataObject \<Rightarrow> json io" where
  "createDraft h accountId email =
     io_bind (findMailboxByRole h accountId ''drafts'') (\<lambda>draftsMailbox.
       case draftsMailbox of
         None \<Rightarrow> io_throw (Error ''Drafts mailbox not found'')
       | Some drafts \<Rightarrow>
           io_bind (jmapApiRequest h
                      [(''Email/set'',
                        [(''accountId'', JStr accountId),
                         (''create'', JObj [(''draft'', JObj (draftOf email drafts))])],
                        ''c1'')]
                      defaultUsing)
             (\<lambda>response. case methodResponses response of
                  [] \<Rightarrow> io_throw TypeError
                | methodResponse # _ \<Rightarrow>
                    if fst methodResponse = ''error''
                    then io_throw (JmapError (fst (snd methodResponse)))
                    else if fst methodResponse = ''Email/set''
                            \<and> truthy (field (fst (snd methodResponse)) ''created'')
                            \<and> truthy (optProp (field (fst (snd methodResponse)) ''created'')
                                        ''draft'')
                    then io_return (optProp (field (fst (snd methodResponse)) ''created'')
                                      ''draft'')
                    else io_return (JObj (fst (snd methodResponse)))))"

definition getIdentities :: "host \<Rightarrow> string \<Rightarrow> IDataObject list io" where
  "getIdentities h accountId =
     io_bind (jmapApiRequest h [(''Identity/get'', [(''accountId'', JStr accountId)], ''c1'')]
                [CORE, SUBMISSION])
       (\<lambda>response. case methodResponses response of
            [] \<Rightarrow> io_throw TypeError
          | methodResponse # _ \<Rightarrow>
              if fst methodResponse = ''Identity/get''
              then io_lift (asObjects (field (fst (snd methodResponse)) ''list''))
              else io_throw (Error ''Failed to get identities''))"

definition updateEmailKeywords :: "host \<Rightarrow> string \<Rightarrow> string \<Rightarrow> IDataObject \<Rightarrow> IDataObject io" where
  "updateEmailKeywords h accountId emailId keywords =
     io_bind (jmapApiRequest h
                [(''Email/set'',
                  [(''accountId'', JStr accountId),
                   (''update'', JObj [(emailId, JObj [(''keywords'', JObj keywords)])])],
                  ''c1'')]
                defaultUsing)
       (\<lambda>response. case methodResponses response of
            [] \<Rightarrow> io_throw TypeError
          | methodResponse # _ \<Rightarrow>
              if fst methodResponse = ''Email/set''
              then io_return (fst (snd methodResponse))
              else io_throw (Error ''Failed to update email''))"

definition moveEmail :: "host \<Rightarrow> string \<Rightarrow> string \<Rightarrow> string \<Rightarrow> IDataObject io" where
  "moveEmail h accountId emailId targetMailboxId =
     io_bind (jmapApiRequest h
                [(''Email/set'',
                  [(''accountId'', JStr accountId),
                   (''update'',
                    JObj [(emailId,
                           JObj [(''mailboxIds'', JObj [(targetMailboxId, JBool True)])])])],
                  ''c1'')]
                defaultUsing)
       (\<lambda>response. case methodResponses response of
            [] \<Rightarrow> io_throw TypeError
          | methodResponse # _ \<Rightarrow>
              if fst methodResponse = ''Email/set''
              then io_return (fst (snd methodResponse))
              else io_throw (Error ''Failed to move email''))"

definition addLabel :: "host \<Rightarrow> string \<Rightarrow> string \<Rightarrow> string \<Rightarrow> IDataObject io" where
  "addLabel h accountId emailId mailboxId =
     io_bind (jmapApiRequest h
                [(''Email/set'',
                  [(''accountId'', JStr accountId),
                   (''update'',
                    JObj [(emailId, JObj [(''mailboxIds/'' @ mailboxId, JBool True)])])],
                  ''c1'')]
                defaultUsing)
       (\<lambda>response. case methodResponses response of
            [] \<Rightarrow> io_throw TypeError
          | methodResponse # _ \<Rightarrow>
              if fst methodResponse = ''Email/set''
              then io_return (fst (snd methodResponse))
              else io_throw (Error ''Failed to add label''))"

definition removeLabel :: "host \<Rightarrow> string \<Rightarrow> string \<Rightarrow> string \<Rightarrow> IDataObject io" where
  "removeLabel h accountId emailId mailboxId =
     io_bind (jmapApiRequest h
                [(''Email/set'',
                  [(''accountId'', JStr accountId),
                   (''update'',
                    JObj [(emailId, JObj [(''mailboxIds/'' @ mailboxId, JNull)])])],
                  ''c1'')]
                defaultUsing)
       (\<lambda>response. case methodResponses response of
            [] \<Rightarrow> io_throw TypeError
          | methodResponse # _ \<Rightarrow>
              if fst methodResponse = ''Email/set''
              then io_return (fst (snd methodResponse))
              else io_throw (Error ''Failed to remove label''))"

definition deleteEmails :: "host \<Rightarrow> string \<Rightarrow> string list \<Rightarrow> IDataObject io" where
  "deleteEmails h accountId emailIds =
     io_bind (jmapApiRequest h
                [(''Email/set'',
                  [(''accountId'', JStr accountId), (''destroy'', JArr (map JStr emailIds))],
                  ''c1'')]
                defaultUsing)
       (\<lambda>response. case methodResponses response of
            [] \<Rightarrow> io_throw TypeError
          | methodResponse # _ \<Rightarrow>
              if fst methodResponse = ''Email/set''
              then io_return (fst (snd methodResponse))
              else io_throw (Error ''Failed to delete emails''))"

definition getThreads :: "host \<Rightarrow> string \<Rightarrow> string list \<Rightarrow> IDataObject list io" where
  "getThreads h accountId threadIds =
     io_bind (jmapApiRequest h
                [(''Thread/get'',
                  [(''accountId'', JStr accountId), (''ids'', JArr (map JStr threadIds))],
                  ''c1'')]
                defaultUsing)
       (\<lambda>response. case methodResponses response of
            [] \<Rightarrow> io_throw TypeError
          | methodResponse # _ \<Rightarrow>
              if fst methodResponse = ''Thread/get''
              then io_lift (asObjects (field (fst (snd methodResponse)) ''list''))
              else io_throw (Error ''Failed to get threads''))"

subsection \<open>Attachments\<close>

definition matchesMimeType :: "string \<Rightarrow> string \<Rightarrow> bool" where
  "matchesMimeType mimeType filter' =
     (let normalizedMime = toLowerCase mimeType;
          normalizedFilter = trim (toLowerCase filter')
      in if endsWith normalizedFilter ''/*''
         then (let prefix' = butlast normalizedFilter
               in startsWith normalizedMime prefix')
         else normalizedMime = normalizedFilter)"

record IAttachmentOptions =
  includeInline :: "bool option"
  mimeTypeFilter :: "string option"

record IBinaryData =
  data :: string
  fileName :: json
  mimeType :: json

text \<open>
  The \<open>json\<close> of an item is declared an object; the poller casts whatever the server
  listed into it, so the record leaves its type open.
\<close>

record 'j INodeExecutionData =
  json :: 'j
  binary :: "(string \<times> IBinaryData) list"

text \<open>
  \<open>mimeTypeFilter ? mimeTypeFilter.split(',').map((f) => f.trim()).filter((f) => f) : []\<close>
\<close>

definition parseMimeFilters :: "string \<Rightarrow> string list" where
  "parseMimeFilters mimeTypeFilter' =
     (if mimeTypeFilter' \<noteq> []
      then filter (\<lambda>f. f \<noteq> []) (map trim (split_comma mimeTypeFilter'))
      else [])"

text \<open>
  The MIME stage of the loop: with no filter every attachment goes on; with filters
  the attachment's type is lower-cased, which raises when it is not a string.
\<close>

definition mimeStage :: "string list \<Rightarrow> IDataObject \<Rightarrow> error + bool" where
  "mimeStage mimeFilters attachment =
     (if length mimeFilters > 0
      then (case asString (field attachment ''type'') of
              Inl e \<Rightarrow> Inl e
            | Inr t \<Rightarrow> Inr (list_ex (\<lambda>f. matchesMimeType t f) mimeFilters))
      else Inr True)"

text \<open>
  \<open>downloadBlob\<close> reads the session and fetches the blob from the session's download
  URL; the model keeps the four values put into the URL template.
\<close>

definition downloadBlob :: "host \<Rightarrow> string \<Rightarrow> json \<Rightarrow> json \<Rightarrow> json \<Rightarrow> string io" where
  "downloadBlob h accountId blobId nm type' =
     io_bind (getJmapSession h) (\<lambda>session w.
       case blobReply h (sent w) accountId blobId nm type' of
         Inl e \<Rightarrow> (Inl (HttpError e), w\<lparr>sent := sent w @ [BlobGet accountId blobId nm type']\<rparr>)
       | Inr buffer \<Rightarrow> (Inr buffer, w\<lparr>sent := sent w @ [BlobGet accountId blobId nm type']\<rparr>))"

definition attachmentItem :: "IDataObject \<Rightarrow> IDataObject \<Rightarrow> int \<Rightarrow> string
     \<Rightarrow> IDataObject INodeExecutionData" where
  "attachmentItem email attachment attachmentIndex buffer =
     \<lparr>json =
        [(''emailId'', field email ''id''),
         (''emailSubject'', field email ''subject''),
         (''attachmentIndex'', JNum attachmentIndex),
         (''fileName'', field attachment ''name''),
         (''mimeType'', field attachment ''type''),
         (''fileSize'', field attachment ''size''),
         (''isInline'', if truthy (field attachment ''isInline'')
                        then field attachment ''isInline'' else JBool False)],
      binary =
        [(''file'', \<lparr>data = buffer, fileName = field attachment ''name'',
                      mimeType = field attachment ''type''\<rparr>)]\<rparr>"

fun attachmentLoop ::
  "host \<Rightarrow> string \<Rightarrow> IDataObject \<Rightarrow> bool \<Rightarrow> string list \<Rightarrow> IDataObject list \<Rightarrow> int
     \<Rightarrow> IDataObject INodeExecutionData list io" where
  "attachmentLoop h accountId email inline mimeFilters [] attachmentIndex = io_return []"
| "attachmentLoop h accountId email inline mimeFilters (attachment # rest) attachmentIndex =
     (if truthy (field attachment ''isInline'') \<and> \<not> inline
      then attachmentLoop h accountId email inline mimeFilters rest attachmentIndex
      else io_bind (io_lift (mimeStage mimeFilters attachment)) (\<lambda>matches.
        if \<not> matches
        then attachmentLoop h accountId email inline mimeFilters rest attachmentIndex
        else io_bind (downloadBlob h accountId (field attachment ''blobId'')
                        (field attachment ''name'') (field attachment ''type''))
          (\<lambda>buffer.
             io_bind (attachmentLoop h accountId email inline mimeFilters rest
                        (attachmentIndex + 1))
               (\<lambda>results.
                  io_return (attachmentItem email attachment attachmentIndex buffer
                             # results)))))"

text \<open>
  The email of \<open>getAttachments\<close> is \<open>emails[0]\<close>; its \<open>id\<close> and \<open>subject\<close> are read only
  once it has shown a non-empty \<open>attachments\<close> list, which only an object can.
\<close>

fun objectOf :: "json \<Rightarrow> IDataObject" where
  "objectOf (JObj kvs) = kvs"
| "objectOf v = []"

definition getAttachments ::
  "host \<Rightarrow> string \<Rightarrow> string \<Rightarrow> IAttachmentOptions
     \<Rightarrow> IDataObject INodeExecutionData list io" where
  "getAttachments h accountId emailId opts =
     (let inline = (case includeInline opts of None \<Rightarrow> False | Some b \<Rightarrow> b);
          mimeTypeFilter' = (case mimeTypeFilter opts of None \<Rightarrow> [] | Some f \<Rightarrow> f)
      in io_bind (getEmails h accountId (JArr [JStr emailId])
                    [''id'', ''subject'', ''attachments''] True True)
           (\<lambda>emails.
              io_bind (io_lift (jsLength emails)) (\<lambda>n.
                if n = JNum 0
                then io_throw (Error (''Email with ID '' @ emailId @ '' not found''))
                else io_bind (io_lift (jsFirst emails)) (\<lambda>email.
                  io_bind (io_lift (jsGet email ''attachments'')) (\<lambda>listed.
                  io_bind (io_lift (if truthy listed then asObjects listed else Inr []))
                    (\<lambda>attachments.
                       if attachments = [] then io_return []
                       else attachmentLoop h accountId (objectOf email) inline
                              (parseMimeFilters mimeTypeFilter') attachments 0))))))"

section \<open>JmapTrigger.poll\<close>

record pollParams =
  event :: string
  simple :: bool
  options :: IDataObject
  mailbox :: string

text \<open>
  \<open>new Date(x).getTime()\<close> is the host's \<open>dateGetTime\<close>, \<open>None\<close> for \<open>NaN\<close>;
  a comparison with \<open>NaN\<close> is false.
\<close>

definition later :: "host \<Rightarrow> json \<Rightarrow> json \<Rightarrow> bool" where
  "later h a b =
     (case dateGetTime h a of
        None \<Rightarrow> False
      | Some emailTime \<Rightarrow>
          (case dateGetTime h b of None \<Rightarrow> False | Some lastTime \<Rightarrow> emailTime > lastTime))"

definition pollFilter :: "pollParams \<Rightarrow> json \<Rightarrow> IDataObject" where
  "pollFilter p lastProcessed =
     (if event p = ''newEmailInMailbox'' then [(''inMailbox'', JStr (mailbox p))] else [])
     @ (if truthy lastProcessed then [(''after'', lastProcessed)] else [])"

definition pollProperties :: "pollParams \<Rightarrow> string list" where
  "pollProperties p =
     [''id'', ''blobId'', ''threadId'', ''mailboxIds'', ''keywords'', ''receivedAt'',
      ''from'', ''to'', ''cc'', ''subject'', ''preview'', ''hasAttachment'']
     @ (if \<not> simple p then [''bodyValues'', ''textBody'', ''htmlBody'', ''bodyStructure'']
        else [])
     @ (if truthy (field (options p) ''includeAttachments'') then [''attachments''] else [])"

text \<open>
  The simple projection reads eleven properties of the email: \<open>email.id\<close> first, which
  raises on \<open>null\<close> and \<open>undefined\<close>; on every other value a property that is not
  there reads \<open>undefined\<close>.
\<close>

definition simpleEmail :: "json \<Rightarrow> IDataObject" where
  "simpleEmail email =
     [(''id'', optProp email ''id''),
      (''threadId'', optProp email ''threadId''),
      (''from'', optProp email ''from''),
      (''to'', optProp email ''to''),
      (''cc'', optProp email ''cc''),
      (''subject'', optProp email ''subject''),
      (''preview'', optProp email ''preview''),
      (''receivedAt'', optProp email ''receivedAt''),
      (''hasAttachment'', optProp email ''hasAttachment''),
      (''isRead'', JBool (truthy (optProp (optProp email ''keywords'') ''$seen''))),
      (''isFlagged'', JBool (truthy (optProp (optProp email ''keywords'') ''$flagged'')))]"

definition pollOutput :: "pollParams \<Rightarrow> json \<Rightarrow> error + json INodeExecutionData" where
  "pollOutput p email =
     (if simple p
      then (case jsGet email ''id'' of
              Inl e \<Rightarrow> Inl e
            | Inr _ \<Rightarrow> Inr \<lparr>json = JObj (simpleEmail email), binary = []\<rparr>)
      else Inr \<lparr>json = email, binary = []\<rparr>)"

text \<open>\<open>newEmails.map(...)\<close>: the first email whose projection raises ends the map.\<close>

fun mapOutput :: "pollParams \<Rightarrow> json list \<Rightarrow> error + json INodeExecutionData list" where
  "mapOutput p [] = Inr []"
| "mapOutput p (email # rest) =
     (case pollOutput p email of
        Inl e \<Rightarrow> Inl e
      | Inr item \<Rightarrow>
          (case mapOutput p rest of Inl e \<Rightarrow> Inl e | Inr items \<Rightarrow> Inr (item # items)))"

text \<open>
  \<open>emails.filter(...)\<close> with the callback of the poller, which reads \<open>email.receivedAt\<close>:
  the first email on which that read raises ends the filter.
\<close>

fun filterNewer :: "host \<Rightarrow> json \<Rightarrow> json list \<Rightarrow> error + json list" where
  "filterNewer h lastProcessed [] = Inr []"
| "filterNewer h lastProcessed (email # rest) =
     (case jsGet email ''receivedAt'' of
        Inl e \<Rightarrow> Inl e
      | Inr receivedAt \<Rightarrow>
          (case filterNewer h lastProcessed rest of
             Inl e \<Rightarrow> Inl e
           | Inr kept \<Rightarrow>
               Inr (if later h receivedAt lastProcessed then email # kept else kept)))"

definition setLastProcessedTime :: "json \<Rightarrow> unit io" where
  "setLastProcessedTime v w = (Inr (), w\<lparr>lastProcessedTime := v\<rparr>)"

definition pollSort :: "IDataObject list" where
  "pollSort = [[(''property'', JStr ''receivedAt''), (''isAscending'', JBool False)]]"

definition poll ::
  "host \<Rightarrow> pollParams \<Rightarrow> json INodeExecutionData list list option io" where
  "poll h p w =
     (let lastProcessed = lastProcessedTime w
      in io_bind (getPrimaryAccountId h) (\<lambda>accountId.
         io_bind (queryEmails h accountId (pollFilter p lastProcessed) pollSort 100 0)
           (\<lambda>result.
         io_bind (io_lift (jsLength (ids result))) (\<lambda>idCount.
           if idCount = JNum 0 then io_return None
           else
         io_bind (getEmails h accountId (ids result) (pollProperties p)
                    (\<not> simple p) (\<not> simple p)) (\<lambda>emails.
         io_bind (io_lift (jsLength emails)) (\<lambda>emailCount.
           if emailCount = JNum 0 then io_return None
           else
         io_bind (io_lift (jsFirst emails)) (\<lambda>mostRecentEmail.
         io_bind (io_lift (jsGet mostRecentEmail ''receivedAt'')) (\<lambda>receivedAt.
         io_bind (setLastProcessedTime receivedAt) (\<lambda>_.
         io_bind (io_lift (if truthy lastProcessed
                           then (case asArray emails of
                                   Inl e \<Rightarrow> Inl e
                                 | Inr listed \<Rightarrow>
                                     (case filterNewer h lastProcessed listed of
                                        Inl e \<Rightarrow> Inl e
                                      | Inr kept \<Rightarrow> Inr (JArr kept)))
                           else Inr emails)) (\<lambda>newEmails.
         io_bind (io_lift (jsLength newEmails)) (\<lambda>newCount.
           if newCount = JNum 0 then io_return None
           else
         io_bind (io_lift (asArray newEmails)) (\<lambda>listed.
         io_bind (io_lift (mapOutput p listed)) (\<lambda>returnData.
           io_return (Some [returnData]))))))))))))) w)"

section \<open>Jmap.execute: the keyword operations\<close>

text \<open>The bodies of the branches \<open>markAsRead\<close> and \<open>markAsUnread\<close>.\<close>

definition execute_markAsRead :: "host \<Rightarrow> string \<Rightarrow> string \<Rightarrow> IDataObject io" where
  "execute_markAsRead h accountId emailId =
     updateEmailKeywords h accountId emailId [(''$seen'', JBool True)]"

definition execute_markAsUnread :: "host \<Rightarrow> string \<Rightarrow> string \<Rightarrow> IDataObject io" where
  "execute_markAsUnread h accountId emailId =
     updateEmailKeywords h accountId emailId [(''$seen'', JBool False)]"

section \<open>What a request carries\<close>

definition carriesMethod :: "string \<Rightarrow> request \<Rightarrow> bool" where
  "carriesMethod m r =
     (case r of
        ApiPost body \<Rightarrow> list_ex (\<lambda>call. fst call = m) (methodCalls body)
      | _ \<Rightarrow> False)"

text \<open>
  The specification's routing, for comparison with the code: the result of a call is
  the payload of the response entry that bears the call's id.
\<close>

definition spec_resultForCallId :: "string \<Rightarrow> IJmapResponse \<Rightarrow> IDataObject option" where
  "spec_resultForCallId callId response =
     (case find (\<lambda>entry. snd (snd entry) = callId) (methodResponses response) of
        None \<Rightarrow> None
      | Some entry \<Rightarrow> Some (fst (snd entry)))"

text \<open>A string that \<open>trim\<close> leaves as it is: no white space at either end.\<close>

definition trimmed :: "string \<Rightarrow> bool" where
  "trimmed s = (s = [] \<or> (\<not> isWhiteSpace (hd s) \<and> \<not> isWhiteSpace (last s)))"

section \<open>Example servers\<close>

text \<open>
  A server that answers the session request with a fixed session and an API request
  by the name of its first method call, from a script; \<open>exampleClock\<close> gives
  \<open>new Date(s).getTime()\<close> for the three timestamps the examples use.
\<close>

definition exampleSession :: IJmapSession where
  "exampleSession =
     \<lparr>accounts = [(''acc1'', \<lparr>name = ''me@example.org'', isPersonal = True,
                               isReadOnly = False, accountCapabilities = []\<rparr>)],
      primaryAccounts = Some [(''urn:ietf:params:jmap:mail'', ''acc1'')],
      username = ''me@example.org'',
      apiUrl = ''https://jmap.example.org/api'',
      downloadUrl = ''https://jmap.example.org/download/{accountId}/{blobId}/{name}?type={type}'',
      uploadUrl = ''https://jmap.example.org/upload/{accountId}'',
      eventSourceUrl = ''https://jmap.example.org/events'',
      state = ''s0'',
      capabilities = []\<rparr>"

definition numericSession :: IJmapSession where
  "numericSession =
     exampleSession\<lparr>accounts := [(''b'', \<lparr>name = ''b'', isPersonal = True, isReadOnly = False,
                                           accountCapabilities = []\<rparr>),
                                  (''7'', \<lparr>name = ''seven'', isPersonal = False,
                                           isReadOnly = True, accountCapabilities = []\<rparr>)],
                    primaryAccounts := Some []\<rparr>"

text \<open>A session whose primary mail account is not among its accounts.\<close>

definition ghostSession :: IJmapSession where
  "ghostSession =
     numericSession\<lparr>primaryAccounts := Some [(''urn:ietf:params:jmap:mail'', ''ghost'')]\<rparr>"

definition exampleClock :: "json \<Rightarrow> int option" where
  "exampleClock v =
     (if v = JStr ''2024-01-01T00:00:00Z'' then Some 1704067200000
      else if v = JStr ''2024-01-02T00:00:00Z'' then Some 1704153600000
      else if v = JStr ''2024-01-03T00:00:00Z'' then Some 1704240000000
      else None)"

definition scriptedHost :: "IJmapSession \<Rightarrow> (string \<times> methodCall list) list \<Rightarrow> host" where
  "scriptedHost session script =
     \<lparr>sessionReply = (\<lambda>log. Inr session),
      apiReply = (\<lambda>log body.
         Inr \<lparr>methodResponses =
                 (case methodCalls body of
                    [] \<Rightarrow> []
                  | call # _ \<Rightarrow>
                      (case map_of script (fst call) of None \<Rightarrow> [] | Some rs \<Rightarrow> rs)),
               sessionState = ''s0''\<rparr>),
      blobReply = (\<lambda>log accountId blobId nm type'. Inr ''bytes''),
      dateGetTime = exampleClock\<rparr>"

definition world0 :: world where
  "world0 = \<lparr>lastProcessedTime = JUndefined, sent = []\<rparr>"

definition exampleParams :: pollParams where
  "exampleParams = \<lparr>event = ''newEmail'', simple = True, options = [], mailbox = []\<rparr>"

definition mail :: "string \<Rightarrow> string \<Rightarrow> IDataObject" where
  "mail i t = [(''id'', JStr i), (''receivedAt'', JStr t)]"

definition queryGetScript ::
  "json list \<Rightarrow> IDataObject list \<Rightarrow> (string \<times> methodCall list) list" where
  "queryGetScript idList emails =
     [(''Email/query'',
       [(''Email/query'', [(''ids'', JArr idList), (''total'', JNum (int (length idList)))],
         ''c1'')]),
      (''Email/get'', [(''Email/get'', [(''list'', JArr (map JObj emails))], ''c1'')])]"

definition mailScript :: "IDataObject list \<Rightarrow> (string \<times> methodCall list) list" where
  "mailScript emails = queryGetScript (map (\<lambda>e. field e ''id'') emails) emails"

text \<open>
  A server whose \<open>Email/query\<close> lists the newer email first, as asked, and whose
  \<open>Email/get\<close> returns the two emails in the other order.
\<close>

definition reorderingHost :: host where
  "reorderingHost =
     scriptedHost exampleSession
       (queryGetScript [JStr ''e2'', JStr ''e1'']
          [mail ''e1'' ''2024-01-01T00:00:00Z'', mail ''e2'' ''2024-01-02T00:00:00Z''])"

definition inboxMailbox :: IDataObject where
  "inboxMailbox = [(''id'', JStr ''mb1''), (''name'', JStr ''Inbox''), (''role'', JStr ''inbox'')]"

definition draftsMailbox :: IDataObject where
  "draftsMailbox = [(''id'', JStr ''mb2''), (''name'', JStr ''Drafts''), (''role'', JStr ''drafts'')]"

definition mailboxScript :: "IDataObject list \<Rightarrow> (string \<times> methodCall list) list" where
  "mailboxScript mailboxes =
     [(''Mailbox/get'', [(''Mailbox/get'', [(''list'', JArr (map JObj mailboxes))], ''c1'')])]"

definition draftCreated :: IDataObject where
  "draftCreated = [(''created'', JObj [(''draft'', JObj [(''id'', JStr ''e9'')])])]"

definition submissionCreated :: IDataObject where
  "submissionCreated = [(''created'', JObj [(''send'', JObj [(''id'', JStr ''s9'')])])]"

definition serverError :: IDataObject where
  "serverError = [(''type'', JStr ''invalidArguments''), (''description'', JStr ''bad patch'')]"

definition mailHost :: "IDataObject list \<Rightarrow> host" where
  "mailHost emails = scriptedHost exampleSession (mailScript emails)"

definition worldAt :: "string \<Rightarrow> world" where
  "worldAt t = \<lparr>lastProcessedTime = JStr t, sent = []\<rparr>"

definition reportAttachment :: IDataObject where
  "reportAttachment =
     [(''blobId'', JStr ''b1''), (''type'', JStr ''application/pdf''),
      (''name'', JStr ''report.pdf''), (''size'', JNum 1024)]"

definition logoAttachment :: IDataObject where
  "logoAttachment =
     [(''blobId'', JStr ''b2''), (''type'', JStr ''image/png''), (''name'', JStr ''logo.png''),
      (''size'', JNum 512), (''isInline'', JBool True)]"

definition sendHost :: "methodCall list \<Rightarrow> host" where
  "sendHost setResponses =
     scriptedHost exampleSession
       (mailboxScript [inboxMailbox, draftsMailbox] @ [(''Email/set'', setResponses)])"

definition sessionHost :: "IJmapSession \<Rightarrow> host" where
  "sessionHost session = scriptedHost session []"

lemmas io_defs = io_bind_def io_return_def io_throw_def io_lift_def Let_def

lemmas transport_defs = getJmapSession_def jmapApiRequest_def CORE_def MAIL_def
  SUBMISSION_def defaultUsing_def

lemmas json_defs = field_def asArray_def asObjects_def asString_def

lemmas server_defs = scriptedHost_def exampleSession_def exampleClock_def world0_def

lemmas account_defs = getPrimaryAccountId_def MAIL_def

lemmas poll_defs = poll_def queryEmails_def getEmails_def queryCall_def getCall_def
  setLastProcessedTime_def later_def pollFilter_def pollProperties_def pollSort_def
  pollOutput_def simpleEmail_def mailHost_def worldAt_def exampleParams_def mail_def mailScript_def
  queryGetScript_def

lemmas send_defs = sendEmail_def findMailboxByRole_def getMailboxes_def sendCalls_def
  draftOf_def mailboxScript_def inboxMailbox_def

lemmas send_example_defs = sendHost_def draftsMailbox_def draftCreated_def
  submissionCreated_def

section \<open>Running the operations\<close>

lemma jmapApiRequest_world:
  "jmapApiRequest h calls caps w = (r, w') \<Longrightarrow>
     w' = w\<lparr>sent := sent w @ [ApiPost \<lparr>usingCaps = caps, methodCalls = calls\<rparr>]\<rparr>"
  by (auto simp: jmapApiRequest_def Let_def split: sum.splits)

lemma getJmapSession_world:
  "getJmapSession h w = (r, w') \<Longrightarrow> w' = w\<lparr>sent := sent w @ [SessionGet]\<rparr>"
  by (auto simp: getJmapSession_def split: sum.splits)

lemma getMailboxes_world:
  "getMailboxes h accountId w = (r, w') \<Longrightarrow>
     w' = w\<lparr>sent := sent w @ [ApiPost \<lparr>usingCaps = [CORE, MAIL],
              methodCalls = [(''Mailbox/get'', [(''accountId'', JStr accountId)], ''c1'')]\<rparr>]\<rparr>"
  by (auto simp: getMailboxes_def io_bind_def io_throw_def io_lift_def defaultUsing_def
      split: prod.splits sum.splits list.splits if_splits dest!: jmapApiRequest_world)

lemma getPrimaryAccountId_frame:
  "getPrimaryAccountId h w = (r, w') \<Longrightarrow> lastProcessedTime w' = lastProcessedTime w"
  by (auto simp: getPrimaryAccountId_def io_bind_def io_return_def io_throw_def Let_def
      split: prod.splits sum.splits option.splits list.splits if_splits
      dest!: getJmapSession_world)

lemma queryEmails_frame:
  "queryEmails h a f s l p w = (r, w') \<Longrightarrow> lastProcessedTime w' = lastProcessedTime w"
  by (auto simp: queryEmails_def io_bind_def io_return_def io_throw_def io_lift_def Let_def
      split: prod.splits sum.splits list.splits if_splits
      dest!: jmapApiRequest_world)


lemma jsGet_optProp: "jsGet v k = Inr r \<Longrightarrow> r = optProp v k"
  by (cases v) auto

lemma filterNewer_later:
  "filterNewer h lastProcessed listed = Inr kept \<Longrightarrow>
     \<forall>email\<in>set kept. later h (optProp email ''receivedAt'') lastProcessed"
proof (induction listed arbitrary: kept)
  case Nil
  then show ?case by simp
next
  case (Cons email rest)
  then show ?case
    by (auto split: sum.splits if_splits dest: jsGet_optProp)
qed


lemma pollOutput_receivedAt:
  "pollOutput p email = Inr item \<Longrightarrow>
     optProp (json item) ''receivedAt'' = optProp email ''receivedAt''"
  by (auto simp: pollOutput_def simpleEmail_def field_def split: if_splits sum.splits)

lemma mapOutput_receivedAt:
  "mapOutput p listed = Inr items \<Longrightarrow>
     \<forall>item\<in>set items. \<exists>email\<in>set listed.
        optProp (json item) ''receivedAt'' = optProp email ''receivedAt''"
proof (induction listed arbitrary: items)
  case Nil
  then show ?case by simp
next
  case (Cons email rest)
  obtain item others where first: "pollOutput p email = Inr item"
    and rest: "mapOutput p rest = Inr others" and items: "items = item # others"
    using Cons.prems by (auto split: sum.splits)
  show ?case
    using Cons.IH [OF rest] pollOutput_receivedAt [OF first] items by auto
qed

text \<open>The cycle after the account and the query have answered with no identifier.\<close>

lemma poll_no_ids:
  assumes "getPrimaryAccountId h w = (Inr accountId, w1)"
    and "queryEmails h accountId (pollFilter p (lastProcessedTime w)) pollSort 100 0 w1
           = (Inr result, w2)"
    and "ids result = JArr []"
  shows "poll h p w = (Inr None, w2)"
  using assms
  by (simp add: poll_def io_bind_def io_return_def io_lift_def Let_def)


subsection \<open>Object.keys\<close>

lemma length_objectKeys: "length (objectKeys obj) = length obj"
  using sum_length_filter_compl [of "\<lambda>k. arrayIndex k \<noteq> None" "map fst obj"]
  by (simp add: objectKeys_def Let_def del: not_None_eq)

lemma set_objectKeys: "set (objectKeys obj) = fst ` set obj"
  by (auto simp: objectKeys_def Let_def)

lemma objectKeys_Nil_iff: "objectKeys obj = [] \<longleftrightarrow> obj = []"
  using length_objectKeys [of obj] by (metis length_0_conv)

subsection \<open>Lower case and trimming\<close>

lemma isWhiteSpace_toLowerCase_unit [simp]:
  "isWhiteSpace (toLowerCase_unit c) = isWhiteSpace c"
proof (cases c)
  case (Char b0 b1 b2 b3 b4 b5 b6 b7)
  then show ?thesis
    by (cases b0; cases b1; cases b2; cases b3; cases b4; cases b5; cases b6; cases b7;
        simp add: isWhiteSpace_def toLowerCase_unit_def)
qed

lemma trim_toLowerCase: "trim (toLowerCase s) = toLowerCase (trim s)"
proof -
  have comp: "isWhiteSpace \<circ> toLowerCase_unit = isWhiteSpace"
    by (rule ext) simp
  have drop: "dropWhile isWhiteSpace (map toLowerCase_unit xs)
                = map toLowerCase_unit (dropWhile isWhiteSpace xs)" for xs
    by (simp add: dropWhile_map comp)
  have "trim (map toLowerCase_unit s)
          = rev (dropWhile isWhiteSpace
                  (map toLowerCase_unit (rev (dropWhile isWhiteSpace s))))"
    by (simp add: trim_def drop rev_map)
  also have "\<dots> = map toLowerCase_unit
                     (rev (dropWhile isWhiteSpace (rev (dropWhile isWhiteSpace s))))"
    by (simp only: drop rev_map)
  finally show ?thesis
    by (simp add: toLowerCase_def trim_def)
qed

lemma dropWhile_keep: "xs = [] \<or> \<not> P (hd xs) \<Longrightarrow> dropWhile P xs = xs"
  by (cases xs) auto

lemma trim_trimmed:
  assumes t: "trimmed s"
  shows "trim s = s"
proof -
  from t have front: "dropWhile isWhiteSpace s = s"
    by (auto simp: trimmed_def intro: dropWhile_keep)
  have "rev s = [] \<or> \<not> isWhiteSpace (hd (rev s))"
    using t by (auto simp: trimmed_def hd_rev)
  then have rear: "dropWhile isWhiteSpace (rev s) = rev s"
    by (rule dropWhile_keep)
  show ?thesis by (simp add: trim_def front rear)
qed

lemma trimmed_trim: "trimmed (trim s)"
proof -
  define u where "u = dropWhile isWhiteSpace s"
  define v where "v = dropWhile isWhiteSpace (rev u)"
  have t: "trim s = rev v" by (simp add: trim_def u_def v_def)
  show ?thesis
  proof (cases "v = []")
    case True
    then show ?thesis by (simp add: t trimmed_def)
  next
    case False
    then have hv: "\<not> isWhiteSpace (hd v)"
      unfolding v_def by (rule hd_dropWhile)
    from False have "rev u \<noteq> []" by (auto simp: v_def)
    then have un: "u \<noteq> []" by simp
    then have hu: "\<not> isWhiteSpace (hd u)"
      unfolding u_def by (rule hd_dropWhile)
    have "rev u = takeWhile isWhiteSpace (rev u) @ v"
      by (simp add: v_def)
    then have "last (rev u) = last v"
      using False by (metis last_appendR)
    then have "last v = hd u" using un by (simp add: last_rev)
    with hu hv False show ?thesis
      by (simp add: t trimmed_def hd_rev last_rev)
  qed
qed

lemma trim_idem: "trim (trim s) = trim s"
  by (rule trim_trimmed) (rule trimmed_trim)

lemma parseMimeFilters_trimmed:
  "f \<in> set (parseMimeFilters raw) \<Longrightarrow> trim f = f \<and> f \<noteq> []"
  by (auto simp: parseMimeFilters_def trim_idem split: if_splits)

lemma matchesMimeType_trim:
  "matchesMimeType m f \<longleftrightarrow>
     (if endsWith (toLowerCase (trim f)) ''/*''
      then startsWith (toLowerCase m) (butlast (toLowerCase (trim f)))
      else toLowerCase m = toLowerCase (trim f))"
  by (simp add: matchesMimeType_def Let_def trim_toLowerCase)

subsection \<open>The attachment loop\<close>

lemma downloadBlob_ok:
  assumes "\<forall>log. \<exists>s. sessionReply h log = Inr s"
    and "\<forall>log a b n t. \<exists>buffer. blobReply h log a b n t = Inr buffer"
  shows "\<exists>buffer w'. downloadBlob h a b n t w = (Inr buffer, w')"
proof -
  from assms(1) obtain s where s: "sessionReply h (sent w) = Inr s" by blast
  from assms(2) obtain buffer where
    b: "blobReply h (sent w @ [SessionGet]) a b n t = Inr buffer" by blast
  show ?thesis
    by (simp add: downloadBlob_def io_bind_def getJmapSession_def s b)
qed

lemma attachmentLoop_no_filter:
  assumes "\<forall>log. \<exists>s. sessionReply h log = Inr s"
    and "\<forall>log a b n t. \<exists>buffer. blobReply h log a b n t = Inr buffer"
  shows "\<exists>items w'. attachmentLoop h accountId email inline [] attachments i w = (Inr items, w')
           \<and> map (\<lambda>item. field (json item) ''fileName'') items
             = map (\<lambda>a. field a ''name'')
                 (filter (\<lambda>a. \<not> (truthy (field a ''isInline'') \<and> \<not> inline)) attachments)"
proof (induction attachments arbitrary: i w)
  case Nil
  show ?case by (simp add: io_return_def)
next
  case (Cons a rest)
  show ?case
  proof (cases "truthy (field a ''isInline'') \<and> \<not> inline")
    case True
    with Cons.IH [of i w] show ?thesis by simp
  next
    case False
    obtain buffer w1 where d: "downloadBlob h accountId (field a ''blobId'') (field a ''name'')
                                 (field a ''type'') w = (Inr buffer, w1)"
      using downloadBlob_ok [OF assms] by blast
    obtain items w2 where
      r: "attachmentLoop h accountId email inline [] rest (i + 1) w1 = (Inr items, w2)"
      and m: "map (\<lambda>item. field (json item) ''fileName'') items
             = map (\<lambda>a. field a ''name'')
                 (filter (\<lambda>a. \<not> (truthy (field a ''isInline'') \<and> \<not> inline)) rest)"
      using Cons.IH [of "i + 1" w1] by blast
    have "attachmentLoop h accountId email inline [] (a # rest) i w
            = (Inr (attachmentItem email a i buffer # items), w2)"
      using False d r
      by (auto simp: mimeStage_def io_bind_def io_lift_def io_return_def)
    moreover have "field (json (attachmentItem email a i buffer)) ''fileName'' = field a ''name''"
      by (simp add: attachmentItem_def field_def)
    ultimately show ?thesis using False m by auto
  qed
qed

section \<open>The poll cycle\<close>




text \<open>
  C2. In a cycle that starts with a watermark (a truthy \<open>lastProcessedTime\<close>, as the
  code tests it), every emitted record carries a \<open>receivedAt\<close> whose time is strictly
  greater than the time of the watermark the cycle started with.
\<close>

theorem emitted_after_watermark:
  assumes run: "poll h p w = (Inr (Some batches), w')"
    and existing: "truthy (lastProcessedTime w)"
  shows "\<forall>batch\<in>set batches. \<forall>item\<in>set batch.
           later h (optProp (json item) ''receivedAt'') (lastProcessedTime w)"
proof -
  obtain listed kept returnData where
    kept: "filterNewer h (lastProcessedTime w) listed = Inr kept"
    and mapped: "mapOutput p kept = Inr returnData"
    and batches: "batches = [returnData]"
    using run existing
    by (auto simp: poll_def io_bind_def io_return_def io_lift_def setLastProcessedTime_def
          Let_def asArray_def
        split: prod.splits sum.splits if_splits json.splits)
  show ?thesis
    using filterNewer_later [OF kept] mapOutput_receivedAt [OF mapped] batches
    by fastforce
qed

theorem emitted_after_watermark_witness:
  "fst (poll (mailHost [mail ''e3'' ''2024-01-03T00:00:00Z'', mail ''e2'' ''2024-01-02T00:00:00Z'',
                        mail ''e1'' ''2024-01-01T00:00:00Z''])
          exampleParams (worldAt ''2024-01-01T00:00:00Z''))
     = Inr (Some [[\<lparr>json = JObj (simpleEmail (JObj (mail ''e3'' ''2024-01-03T00:00:00Z''))), binary = []\<rparr>,
                   \<lparr>json = JObj (simpleEmail (JObj (mail ''e2'' ''2024-01-02T00:00:00Z''))), binary = []\<rparr>]])
   \<and> later (mailHost [mail ''e3'' ''2024-01-03T00:00:00Z'', mail ''e2'' ''2024-01-02T00:00:00Z'',
                      mail ''e1'' ''2024-01-01T00:00:00Z''])
        (JStr ''2024-01-03T00:00:00Z'') (JStr ''2024-01-01T00:00:00Z'')
   \<and> later (mailHost [mail ''e3'' ''2024-01-03T00:00:00Z'', mail ''e2'' ''2024-01-02T00:00:00Z'',
                      mail ''e1'' ''2024-01-01T00:00:00Z''])
        (JStr ''2024-01-02T00:00:00Z'') (JStr ''2024-01-01T00:00:00Z'')"
proof -
  let ?h = "mailHost [mail ''e3'' ''2024-01-03T00:00:00Z'', mail ''e2'' ''2024-01-02T00:00:00Z'',
                      mail ''e1'' ''2024-01-01T00:00:00Z'']"
  let ?w = "worldAt ''2024-01-01T00:00:00Z''"
  let ?i3 = "\<lparr>json = JObj (simpleEmail (JObj (mail ''e3'' ''2024-01-03T00:00:00Z''))), binary = []\<rparr>"
  let ?i2 = "\<lparr>json = JObj (simpleEmail (JObj (mail ''e2'' ''2024-01-02T00:00:00Z''))), binary = []\<rparr>"
  have emitted: "fst (poll ?h exampleParams ?w) = Inr (Some [[?i3, ?i2]])"
    by (simp add: server_defs io_defs transport_defs json_defs account_defs poll_defs)
  have run: "poll ?h exampleParams ?w
               = (Inr (Some [[?i3, ?i2]]), snd (poll ?h exampleParams ?w))"
    using emitted by (metis prod.collapse)
  have existing: "truthy (lastProcessedTime ?w)"
    by (simp add: worldAt_def)
  have shown: "field (simpleEmail (JObj (mail i t))) ''receivedAt'' = JStr t" for i t
    by (simp add: simpleEmail_def mail_def field_def)
  have start: "lastProcessedTime ?w = JStr ''2024-01-01T00:00:00Z''"
    by (simp add: worldAt_def)
  show ?thesis
    using emitted_after_watermark [OF run existing] emitted
    by (simp add: shown start)
qed

text \<open>
  C3 does not hold on the code: the watermark is set to the \<open>receivedAt\<close> of
  \<open>emails[0]\<close>, which the comment calls the most recent email, and \<open>Email/get\<close> need
  not return its list in the order of the ids. Here the query lists the email of
  2 January before the email of 1 January and the fetch returns them the other way
  round: both are emitted, the persisted watermark is 1 January, the other fetched
  email is later than it, and the next cycle emits that email again.
\<close>

theorem watermark_first_not_latest:
  "fst (poll reorderingHost exampleParams world0)
     = Inr (Some [[\<lparr>json = JObj (simpleEmail (JObj (mail ''e1'' ''2024-01-01T00:00:00Z''))),
                    binary = []\<rparr>,
                   \<lparr>json = JObj (simpleEmail (JObj (mail ''e2'' ''2024-01-02T00:00:00Z''))), binary = []\<rparr>]])
   \<and> lastProcessedTime (snd (poll reorderingHost exampleParams world0))
      = JStr ''2024-01-01T00:00:00Z''
   \<and> later reorderingHost (JStr ''2024-01-02T00:00:00Z'')
        (lastProcessedTime (snd (poll reorderingHost exampleParams world0)))
   \<and> fst (poll reorderingHost exampleParams (snd (poll reorderingHost exampleParams world0)))
     = Inr (Some [[\<lparr>json = JObj (simpleEmail (JObj (mail ''e2'' ''2024-01-02T00:00:00Z''))), binary = []\<rparr>]])"
  by (simp add: server_defs io_defs transport_defs json_defs account_defs poll_defs
      reorderingHost_def)

text \<open>
  C9. A cycle whose \<open>Email/query\<close> returns no id returns \<open>null\<close> and leaves the
  watermark as it was; a second such cycle right after it does the same, so after two
  of them the watermark is still the one before the first.
\<close>

theorem empty_query_cycle_idempotent:
  assumes acc1: "getPrimaryAccountId h w = (Inr a1, w1)"
    and q1: "queryEmails h a1 (pollFilter p (lastProcessedTime w)) pollSort 100 0 w1
               = (Inr r1, w2)"
    and e1: "ids r1 = JArr []"
    and acc2: "getPrimaryAccountId h w2 = (Inr a2, w3)"
    and q2: "queryEmails h a2 (pollFilter p (lastProcessedTime w2)) pollSort 100 0 w3
               = (Inr r2, w4)"
    and e2: "ids r2 = JArr []"
  shows "poll h p w = (Inr None, w2) \<and> lastProcessedTime w2 = lastProcessedTime w
       \<and> poll h p w2 = (Inr None, w4) \<and> lastProcessedTime w4 = lastProcessedTime w"
proof -
  have same: "lastProcessedTime w2 = lastProcessedTime w"
    using getPrimaryAccountId_frame [OF acc1] queryEmails_frame [OF q1] by simp
  have first: "poll h p w = (Inr None, w2)"
    using poll_no_ids [OF acc1 q1 e1] .
  have second: "poll h p w2 = (Inr None, w4)"
    using poll_no_ids [OF acc2 q2 e2] .
  have "lastProcessedTime w4 = lastProcessedTime w2"
    using getPrimaryAccountId_frame [OF acc2] queryEmails_frame [OF q2] by simp
  with same first second show ?thesis by simp
qed

theorem empty_query_cycle_idempotent_witness:
  "fst (poll (mailHost []) exampleParams (worldAt ''2024-01-01T00:00:00Z'')) = Inr None
   \<and> fst (poll (mailHost []) exampleParams
            (snd (poll (mailHost []) exampleParams (worldAt ''2024-01-01T00:00:00Z''))))
       = Inr None
   \<and> lastProcessedTime
        (snd (poll (mailHost []) exampleParams
                (snd (poll (mailHost []) exampleParams (worldAt ''2024-01-01T00:00:00Z'')))))
      = JStr ''2024-01-01T00:00:00Z''"
proof -
  let ?h = "mailHost []"
  let ?w = "worldAt ''2024-01-01T00:00:00Z''"
  let ?f = "pollFilter exampleParams (lastProcessedTime ?w)"
  let ?w1 = "snd (getPrimaryAccountId ?h ?w)"
  let ?w2 = "snd (queryEmails ?h ''acc1'' ?f pollSort 100 0 ?w1)"
  let ?f2 = "pollFilter exampleParams (lastProcessedTime ?w2)"
  let ?w3 = "snd (getPrimaryAccountId ?h ?w2)"
  let ?w4 = "snd (queryEmails ?h ''acc1'' ?f2 pollSort 100 0 ?w3)"
  have acc1: "getPrimaryAccountId ?h ?w = (Inr ''acc1'', ?w1)"
    by (simp add: server_defs io_defs transport_defs json_defs account_defs poll_defs)
  have q1: "queryEmails ?h ''acc1'' ?f pollSort 100 0 ?w1
              = (Inr \<lparr>ids = JArr [], total = JNum 0\<rparr>, ?w2)"
    by (simp add: server_defs io_defs transport_defs json_defs account_defs poll_defs)
  have acc2: "getPrimaryAccountId ?h ?w2 = (Inr ''acc1'', ?w3)"
    by (simp add: server_defs io_defs transport_defs json_defs account_defs poll_defs)
  have q2: "queryEmails ?h ''acc1'' ?f2 pollSort 100 0 ?w3
              = (Inr \<lparr>ids = JArr [], total = JNum 0\<rparr>, ?w4)"
    by (simp add: server_defs io_defs transport_defs json_defs account_defs poll_defs)
  have e: "ids \<lparr>ids = JArr [], total = JNum 0\<rparr> = JArr []"
    by simp
  note cycles = empty_query_cycle_idempotent [OF acc1 q1 e acc2 q2 e]
  have first: "poll ?h exampleParams ?w = (Inr None, ?w2)"
    using cycles by (rule conjunct1)
  have second: "poll ?h exampleParams ?w2 = (Inr None, ?w4)"
    using cycles [THEN conjunct2, THEN conjunct2] by (rule conjunct1)
  have kept: "lastProcessedTime ?w4 = lastProcessedTime ?w"
    using cycles [THEN conjunct2, THEN conjunct2] by (rule conjunct2)
  have start: "lastProcessedTime ?w = JStr ''2024-01-01T00:00:00Z''"
    by (simp add: worldAt_def)
  have once: "snd (poll ?h exampleParams ?w) = ?w2"
    by (simp only: first snd_conv)
  have a: "fst (poll ?h exampleParams ?w) = Inr None"
    by (simp only: first fst_conv)
  have b: "fst (poll ?h exampleParams (snd (poll ?h exampleParams ?w))) = Inr None"
    by (simp only: once second fst_conv)
  have "lastProcessedTime (snd (poll ?h exampleParams (snd (poll ?h exampleParams ?w))))
          = lastProcessedTime ?w"
    by (simp only: once second snd_conv kept)
  then have c: "lastProcessedTime
                  (snd (poll ?h exampleParams (snd (poll ?h exampleParams ?w))))
                = JStr ''2024-01-01T00:00:00Z''"
    using start by (rule trans)
  from a b c show ?thesis by (intro conjI)
qed

section \<open>Responses and errors\<close>

text \<open>
  C4, as the code has it. A response entry is found by its position, never by its call
  id: \<open>queryEmails\<close> reads the first entry and takes its payload when its method name is
  \<open>Email/query\<close>, and \<open>sendEmail\<close> (when no entry is named \<open>error\<close>) returns the
  payload of the second entry. Both results are the same whatever the call ids of the
  entries are.
\<close>

theorem results_read_by_position:
  "(jmapApiRequest h [queryCall accountId f s l p] defaultUsing w = (Inr response, w')
      \<and> methodResponses response = (''Email/query'', payload, callId) # rest
    \<longrightarrow> queryEmails h accountId f s l p w
          = (Inr \<lparr>ids = field payload ''ids'', total = field payload ''total''\<rparr>, w'))
   \<and> (findMailboxByRole h accountId ''drafts'' w = (Inr (Some drafts), w1)
      \<and> jmapApiRequest h (sendCalls accountId (draftOf email drafts) identityId)
            [CORE, MAIL, SUBMISSION] w1 = (Inr response2, w2)
      \<and> methodResponses response2 = (n0, p0, c0) # (n1, p1, c1) # rest2
      \<and> find (\<lambda>entry. fst entry = ''error'') (methodResponses response2) = None
    \<longrightarrow> sendEmail h accountId email identityId w = (Inr p1, w2))"
proof (intro conjI impI)
  assume "jmapApiRequest h [queryCall accountId f s l p] defaultUsing w = (Inr response, w')
      \<and> methodResponses response = (''Email/query'', payload, callId) # rest"
  then show "queryEmails h accountId f s l p w
          = (Inr \<lparr>ids = field payload ''ids'', total = field payload ''total''\<rparr>, w')"
    by (simp add: queryEmails_def io_bind_def io_lift_def io_return_def Let_def)
next
  assume "findMailboxByRole h accountId ''drafts'' w = (Inr (Some drafts), w1)
      \<and> jmapApiRequest h (sendCalls accountId (draftOf email drafts) identityId)
            [CORE, MAIL, SUBMISSION] w1 = (Inr response2, w2)
      \<and> methodResponses response2 = (n0, p0, c0) # (n1, p1, c1) # rest2
      \<and> find (\<lambda>entry. fst entry = ''error'') (methodResponses response2) = None"
  then have found: "findMailboxByRole h accountId ''drafts'' w = (Inr (Some drafts), w1)"
    and sent2: "jmapApiRequest h (sendCalls accountId (draftOf email drafts) identityId)
                  [CORE, MAIL, SUBMISSION] w1 = (Inr response2, w2)"
    and entries: "methodResponses response2 = (n0, p0, c0) # (n1, p1, c1) # rest2"
    and none: "find (\<lambda>entry. fst entry = ''error'') (methodResponses response2) = None"
    by blast+
  have clean: "n0 \<noteq> ''error''" "n1 \<noteq> ''error''"
    "find (\<lambda>entry. fst entry = ''error'') rest2 = None"
    using none entries by (auto split: if_splits)
  show "sendEmail h accountId email identityId w = (Inr p1, w2)"
    by (simp add: sendEmail_def io_bind_def io_lift_def io_return_def
        found sent2 entries clean)
qed

text \<open>
  The query answer bears the call id \<open>zz\<close> and the two answers to the send bear each
  other's ids; the results are read all the same. A query answer without \<open>ids\<close> is
  accepted as it is, with \<open>ids\<close> undefined.
\<close>

theorem results_read_by_position_witness:
  "fst (queryEmails
          (scriptedHost exampleSession
             [(''Email/query'',
               [(''Email/query'', [(''ids'', JArr [JStr ''e1'']), (''total'', JNum 1)], ''zz'')])])
          ''acc1'' [] pollSort 100 0 world0)
     = Inr \<lparr>ids = JArr [JStr ''e1''], total = JNum 1\<rparr>
   \<and> fst (queryEmails
            (scriptedHost exampleSession
               [(''Email/query'', [(''Email/query'', [(''total'', JNum 3)], ''c1'')])])
            ''acc1'' [] pollSort 100 0 world0)
     = Inr \<lparr>ids = JUndefined, total = JNum 3\<rparr>
   \<and> fst (sendEmail
            (sendHost [(''Email/set'', draftCreated, ''c2''),
                       (''EmailSubmission/set'', submissionCreated, ''c1'')])
            ''acc1'' [] ''id1'' world0)
     = Inr submissionCreated"
proof -
  let ?hq = "scriptedHost exampleSession
               [(''Email/query'',
                 [(''Email/query'', [(''ids'', JArr [JStr ''e1'']), (''total'', JNum 1)], ''zz'')])]"
  let ?payload = "[(''ids'', JArr [JStr ''e1'']), (''total'', JNum 1)]"
  let ?rq = "jmapApiRequest ?hq [queryCall ''acc1'' [] pollSort 100 0] defaultUsing world0"
  let ?hs = "sendHost [(''Email/set'', draftCreated, ''c2''),
                       (''EmailSubmission/set'', submissionCreated, ''c1'')]"
  let ?w1 = "snd (findMailboxByRole ?hs ''acc1'' ''drafts'' world0)"
  let ?rs = "jmapApiRequest ?hs (sendCalls ''acc1'' (draftOf [] draftsMailbox) ''id1'')
               [CORE, MAIL, SUBMISSION] ?w1"
  have q1: "?rq = (Inr \<lparr>methodResponses = [(''Email/query'', ?payload, ''zz'')],
                        sessionState = ''s0''\<rparr>, snd ?rq)"
    by (simp add: server_defs io_defs transport_defs json_defs send_defs send_example_defs
        queryCall_def)
  have q2: "methodResponses \<lparr>methodResponses = [(''Email/query'', ?payload, ''zz'')],
                             sessionState = ''s0''\<rparr>
              = (''Email/query'', ?payload, ''zz'') # []"
    by simp
  let ?hu = "scriptedHost exampleSession
               [(''Email/query'', [(''Email/query'', [(''total'', JNum 3)], ''c1'')])]"
  let ?ru = "jmapApiRequest ?hu [queryCall ''acc1'' [] pollSort 100 0] defaultUsing world0"
  have u1: "?ru = (Inr \<lparr>methodResponses = [(''Email/query'', [(''total'', JNum 3)], ''c1'')],
                        sessionState = ''s0''\<rparr>, snd ?ru)"
    by (simp add: server_defs io_defs transport_defs json_defs send_defs send_example_defs
        queryCall_def)
  have u2: "methodResponses \<lparr>methodResponses = [(''Email/query'', [(''total'', JNum 3)], ''c1'')],
                             sessionState = ''s0''\<rparr>
              = (''Email/query'', [(''total'', JNum 3)], ''c1'') # []"
    by simp
  have s1: "findMailboxByRole ?hs ''acc1'' ''drafts'' world0 = (Inr (Some draftsMailbox), ?w1)"
    by (simp add: server_defs io_defs transport_defs json_defs send_defs send_example_defs
        queryCall_def)
  have s3: "?rs = (Inr \<lparr>methodResponses =
                          [(''Email/set'', draftCreated, ''c2''),
                           (''EmailSubmission/set'', submissionCreated, ''c1'')],
                        sessionState = ''s0''\<rparr>, snd ?rs)"
    by (simp add: server_defs io_defs transport_defs json_defs send_defs send_example_defs
        queryCall_def)
  have s4: "methodResponses \<lparr>methodResponses =
                          [(''Email/set'', draftCreated, ''c2''),
                           (''EmailSubmission/set'', submissionCreated, ''c1'')],
                        sessionState = ''s0''\<rparr>
              = (''Email/set'', draftCreated, ''c2'')
                # (''EmailSubmission/set'', submissionCreated, ''c1'') # []"
    by simp
  have s5: "find (\<lambda>entry. fst entry = ''error'')
              (methodResponses \<lparr>methodResponses =
                          [(''Email/set'', draftCreated, ''c2''),
                           (''EmailSubmission/set'', submissionCreated, ''c1'')],
                        sessionState = ''s0''\<rparr>) = None"
    by simp
  have query: "queryEmails ?hq ''acc1'' [] pollSort 100 0 world0
                 = (Inr \<lparr>ids = field ?payload ''ids'', total = field ?payload ''total''\<rparr>, snd ?rq)"
    using results_read_by_position [THEN conjunct1, rule_format, OF conjI [OF q1 q2]] .
  have asIs: "queryEmails ?hu ''acc1'' [] pollSort 100 0 world0
                 = (Inr \<lparr>ids = field [(''total'', JNum 3)] ''ids'',
                         total = field [(''total'', JNum 3)] ''total''\<rparr>, snd ?ru)"
    using results_read_by_position [THEN conjunct1, rule_format, OF conjI [OF u1 u2]] .
  have send: "sendEmail ?hs ''acc1'' [] ''id1'' world0 = (Inr submissionCreated, snd ?rs)"
    using results_read_by_position [THEN conjunct2, rule_format,
        OF conjI [OF s1 conjI [OF s3 conjI [OF s4 s5]]]] .
  show ?thesis
    using query asIs send by (simp add: field_def)
qed

text \<open>
  C4 as stated fails: when the server returns the two answers to a send in the other
  order, \<open>sendEmail\<close> returns the payload of the entry with call id \<open>c1\<close> (the draft)
  as the result of the submission, whose call id is \<open>c2\<close>; routing by call id gives the
  submission's payload, which is what the code returns for the answers in call order.
\<close>

theorem routed_by_callId_counterexample:
  "fst (sendEmail
          (sendHost [(''EmailSubmission/set'', submissionCreated, ''c2''),
                     (''Email/set'', draftCreated, ''c1'')])
          ''acc1'' [] ''id1'' world0)
     = Inr draftCreated
   \<and> spec_resultForCallId ''c2''
        \<lparr>methodResponses = [(''EmailSubmission/set'', submissionCreated, ''c2''),
                             (''Email/set'', draftCreated, ''c1'')],
          sessionState = ''s0''\<rparr>
     = Some submissionCreated
   \<and> draftCreated \<noteq> submissionCreated
   \<and> fst (sendEmail
            (sendHost [(''Email/set'', draftCreated, ''c1''),
                       (''EmailSubmission/set'', submissionCreated, ''c2'')])
            ''acc1'' [] ''id1'' world0)
     = Inr submissionCreated"
  by (simp add: server_defs io_defs transport_defs json_defs send_defs send_example_defs
      queryCall_def spec_resultForCallId_def)

text \<open>
  Against a server that answers every API request with an \<open>error\<close> entry first, each
  single-call operation ends with its own fixed message.
\<close>

lemma jmapApiRequest_error_first:
  assumes "\<forall>log body. \<exists>payload callId rest st.
             apiReply h log body
               = Inr \<lparr>methodResponses = (''error'', payload, callId) # rest, sessionState = st\<rparr>"
  shows "\<exists>payload callId rest st w'.
           jmapApiRequest h calls caps w
             = (Inr \<lparr>methodResponses = (''error'', payload, callId) # rest, sessionState = st\<rparr>,
                w')"
proof -
  from assms obtain payload callId rest st where
    "apiReply h (sent w) \<lparr>usingCaps = caps, methodCalls = calls\<rparr>
       = Inr \<lparr>methodResponses = (''error'', payload, callId) # rest, sessionState = st\<rparr>"
    by blast
  then show ?thesis
    by (simp add: jmapApiRequest_def Let_def)
qed

lemma io_bind_error_first:
  assumes server: "\<forall>log body. \<exists>payload callId rest st.
             apiReply h log body
               = Inr \<lparr>methodResponses = (''error'', payload, callId) # rest, sessionState = st\<rparr>"
    and continue: "\<And>response payload callId rest w'.
             methodResponses response = (''error'', payload, callId) # rest
             \<Longrightarrow> fst (k response w') = r"
  shows "fst (io_bind (jmapApiRequest h calls caps) k w) = r"
proof -
  obtain payload callId rest st w' where
    "jmapApiRequest h calls caps w
       = (Inr \<lparr>methodResponses = (''error'', payload, callId) # rest, sessionState = st\<rparr>, w')"
    using jmapApiRequest_error_first [OF server] by blast
  then show ?thesis
    using continue [of "\<lparr>methodResponses = (''error'', payload, callId) # rest,
                         sessionState = st\<rparr>" payload callId rest w']
    by (simp add: io_bind_def)
qed

lemma single_call_operations_fixed_message:
  assumes "\<forall>log body. \<exists>payload callId rest st.
             apiReply h log body
               = Inr \<lparr>methodResponses = (''error'', payload, callId) # rest, sessionState = st\<rparr>"
  shows "fst (getMailboxes h accountId w) = Inl (Error ''Failed to get mailboxes'')"
    and "fst (queryEmails h accountId f s l p w) = Inl (Error ''Failed to query emails'')"
    and "fst (getEmails h accountId idList ps t u w) = Inl (Error ''Failed to get emails'')"
    and "fst (getIdentities h accountId w) = Inl (Error ''Failed to get identities'')"
    and "fst (updateEmailKeywords h accountId emailId keywords w)
           = Inl (Error ''Failed to update email'')"
    and "fst (moveEmail h accountId emailId target w) = Inl (Error ''Failed to move email'')"
    and "fst (addLabel h accountId emailId label w) = Inl (Error ''Failed to add label'')"
    and "fst (removeLabel h accountId emailId label w) = Inl (Error ''Failed to remove label'')"
    and "fst (deleteEmails h accountId emailIds w) = Inl (Error ''Failed to delete emails'')"
    and "fst (getThreads h accountId threadIds w) = Inl (Error ''Failed to get threads'')"
  unfolding getMailboxes_def queryEmails_def getEmails_def getIdentities_def
    updateEmailKeywords_def moveEmail_def addLabel_def removeLabel_def deleteEmails_def
    getThreads_def
  by (rule io_bind_error_first [OF assms], simp add: io_throw_def)+

text \<open>
  C5, as the code has it. \<open>sendEmail\<close> looks at every entry of the response and, when
  one is named \<open>error\<close>, ends with an error that carries the payload of the first such
  entry; \<open>createDraft\<close> does so for its first entry. \<open>updateEmailKeywords\<close>, like the
  other single-call operations, looks at the first entry only: named \<open>error\<close>, the
  operation ends with the fixed message \<open>Failed to update email\<close>, which carries
  nothing of the server's payload; named \<open>Email/set\<close>, its payload is the result
  whatever the later entries are.
\<close>

theorem error_entries_end_the_operation:
  "(findMailboxByRole h accountId ''drafts'' w = (Inr (Some drafts), w1)
      \<and> jmapApiRequest h (sendCalls accountId (draftOf email drafts) identityId)
            [CORE, MAIL, SUBMISSION] w1 = (Inr response, w2)
      \<and> find (\<lambda>entry. fst entry = ''error'') (methodResponses response)
            = Some (nm, payload, callId)
    \<longrightarrow> sendEmail h accountId email identityId w = (Inl (JmapError payload), w2))
   \<and> (findMailboxByRole h accountId ''drafts'' w = (Inr (Some drafts), w1)
      \<and> jmapApiRequest h
            [(''Email/set'',
              [(''accountId'', JStr accountId),
               (''create'', JObj [(''draft'', JObj (draftOf email drafts))])],
              ''c1'')]
            defaultUsing w1 = (Inr response, w2)
      \<and> methodResponses response = (''error'', payload, callId) # rest
    \<longrightarrow> createDraft h accountId email w = (Inl (JmapError payload), w2))
   \<and> (jmapApiRequest h
         [(''Email/set'',
           [(''accountId'', JStr accountId),
            (''update'', JObj [(emailId, JObj [(''keywords'', JObj keywords)])])],
           ''c1'')]
         defaultUsing w = (Inr response, w')
      \<and> methodResponses response = (''error'', payload, callId) # rest
    \<longrightarrow> updateEmailKeywords h accountId emailId keywords w
          = (Inl (Error ''Failed to update email''), w'))
   \<and> (jmapApiRequest h
         [(''Email/set'',
           [(''accountId'', JStr accountId),
            (''update'', JObj [(emailId, JObj [(''keywords'', JObj keywords)])])],
           ''c1'')]
         defaultUsing w = (Inr response, w')
      \<and> methodResponses response = (''Email/set'', payload, callId) # rest
    \<longrightarrow> updateEmailKeywords h accountId emailId keywords w = (Inr payload, w'))"
proof (intro conjI impI)
  assume "findMailboxByRole h accountId ''drafts'' w = (Inr (Some drafts), w1)
      \<and> jmapApiRequest h (sendCalls accountId (draftOf email drafts) identityId)
            [CORE, MAIL, SUBMISSION] w1 = (Inr response, w2)
      \<and> find (\<lambda>entry. fst entry = ''error'') (methodResponses response)
            = Some (nm, payload, callId)"
  then have found: "findMailboxByRole h accountId ''drafts'' w = (Inr (Some drafts), w1)"
    and sent2: "jmapApiRequest h (sendCalls accountId (draftOf email drafts) identityId)
                  [CORE, MAIL, SUBMISSION] w1 = (Inr response, w2)"
    and failed: "find (\<lambda>entry. fst entry = ''error'') (methodResponses response)
                   = Some (nm, payload, callId)"
    by blast+
  show "sendEmail h accountId email identityId w = (Inl (JmapError payload), w2)"
    by (simp add: sendEmail_def io_bind_def io_lift_def io_throw_def
        found sent2 failed)
next
  assume "findMailboxByRole h accountId ''drafts'' w = (Inr (Some drafts), w1)
      \<and> jmapApiRequest h
            [(''Email/set'',
              [(''accountId'', JStr accountId),
               (''create'', JObj [(''draft'', JObj (draftOf email drafts))])],
              ''c1'')]
            defaultUsing w1 = (Inr response, w2)
      \<and> methodResponses response = (''error'', payload, callId) # rest"
  then show "createDraft h accountId email w = (Inl (JmapError payload), w2)"
    by (simp add: createDraft_def io_bind_def io_lift_def io_throw_def)
next
  assume "jmapApiRequest h
         [(''Email/set'',
           [(''accountId'', JStr accountId),
            (''update'', JObj [(emailId, JObj [(''keywords'', JObj keywords)])])],
           ''c1'')]
         defaultUsing w = (Inr response, w')
      \<and> methodResponses response = (''error'', payload, callId) # rest"
  then show "updateEmailKeywords h accountId emailId keywords w
          = (Inl (Error ''Failed to update email''), w')"
    by (simp add: updateEmailKeywords_def io_bind_def io_throw_def)
next
  assume "jmapApiRequest h
         [(''Email/set'',
           [(''accountId'', JStr accountId),
            (''update'', JObj [(emailId, JObj [(''keywords'', JObj keywords)])])],
           ''c1'')]
         defaultUsing w = (Inr response, w')
      \<and> methodResponses response = (''Email/set'', payload, callId) # rest"
  then show "updateEmailKeywords h accountId emailId keywords w = (Inr payload, w')"
    by (simp add: updateEmailKeywords_def io_bind_def io_return_def)
qed

theorem error_entries_end_the_operation_witness:
  "fst (sendEmail (sendHost [(''Email/set'', draftCreated, ''c1''), (''error'', serverError, ''c2'')])
          ''acc1'' [] ''id1'' world0)
     = Inl (JmapError serverError)
   \<and> fst (createDraft (sendHost [(''error'', serverError, ''c1'')]) ''acc1'' [] world0)
     = Inl (JmapError serverError)
   \<and> fst (updateEmailKeywords (sendHost [(''error'', serverError, ''c1'')])
            ''acc1'' ''e1'' [(''$seen'', JBool True)] world0)
     = Inl (Error ''Failed to update email'')
   \<and> fst (updateEmailKeywords (sendHost [(''Email/set'', draftCreated, ''c1'')])
            ''acc1'' ''e1'' [(''$seen'', JBool True)] world0)
     = Inr draftCreated"
proof -
  let ?mixed = "[(''Email/set'', draftCreated, ''c1''), (''error'', serverError, ''c2'')]"
  let ?failed = "[(''error'', serverError, ''c1'')]"
  let ?done = "[(''Email/set'', draftCreated, ''c1'')]"
  let ?update = "[(''Email/set'',
                   [(''accountId'', JStr ''acc1''),
                    (''update'', JObj [(''e1'', JObj [(''keywords'',
                                                        JObj [(''$seen'', JBool True)])])])],
                   ''c1'')]"
  let ?create = "[(''Email/set'',
                   [(''accountId'', JStr ''acc1''),
                    (''create'', JObj [(''draft'', JObj (draftOf [] draftsMailbox))])],
                   ''c1'')]"
  let ?w1 = "\<lambda>script. snd (findMailboxByRole (sendHost script) ''acc1'' ''drafts'' world0)"
  let ?rs = "jmapApiRequest (sendHost ?mixed) (sendCalls ''acc1'' (draftOf [] draftsMailbox) ''id1'')
               [CORE, MAIL, SUBMISSION] (?w1 ?mixed)"
  let ?rc = "jmapApiRequest (sendHost ?failed) ?create defaultUsing (?w1 ?failed)"
  let ?ru = "jmapApiRequest (sendHost ?failed) ?update defaultUsing world0"
  let ?rd = "jmapApiRequest (sendHost ?done) ?update defaultUsing world0"
  have found: "findMailboxByRole (sendHost script) ''acc1'' ''drafts'' world0
                 = (Inr (Some draftsMailbox), ?w1 script)" for script
    by (simp add: server_defs io_defs transport_defs json_defs send_defs send_example_defs
        serverError_def)
  have s3: "?rs = (Inr \<lparr>methodResponses = ?mixed, sessionState = ''s0''\<rparr>, snd ?rs)"
    by (simp add: server_defs io_defs transport_defs json_defs send_defs send_example_defs
        serverError_def)
  have s4: "find (\<lambda>entry. fst entry = ''error'')
              (methodResponses \<lparr>methodResponses = ?mixed, sessionState = ''s0''\<rparr>)
              = Some (''error'', serverError, ''c2'')"
    by simp
  have c3: "?rc = (Inr \<lparr>methodResponses = ?failed, sessionState = ''s0''\<rparr>, snd ?rc)"
    by (simp add: server_defs io_defs transport_defs json_defs send_defs send_example_defs
        serverError_def)
  have u3: "?ru = (Inr \<lparr>methodResponses = ?failed, sessionState = ''s0''\<rparr>, snd ?ru)"
    by (simp add: server_defs io_defs transport_defs json_defs send_defs send_example_defs
        serverError_def)
  have d3: "?rd = (Inr \<lparr>methodResponses = ?done, sessionState = ''s0''\<rparr>, snd ?rd)"
    by (simp add: server_defs io_defs transport_defs json_defs send_defs send_example_defs
        serverError_def)
  have entries: "methodResponses \<lparr>methodResponses = [entry], sessionState = ''s0''\<rparr>
                   = entry # []" for entry :: methodCall
    by simp
  have send: "sendEmail (sendHost ?mixed) ''acc1'' [] ''id1'' world0
                = (Inl (JmapError serverError), snd ?rs)"
    using error_entries_end_the_operation [THEN conjunct1, rule_format,
        OF conjI [OF found conjI [OF s3 s4]]] .
  have create: "createDraft (sendHost ?failed) ''acc1'' [] world0
                  = (Inl (JmapError serverError), snd ?rc)"
    using error_entries_end_the_operation [THEN conjunct2, THEN conjunct1, rule_format,
        OF conjI [OF found conjI [OF c3 entries]]] .
  have update: "updateEmailKeywords (sendHost ?failed) ''acc1'' ''e1'' [(''$seen'', JBool True)]
                  world0 = (Inl (Error ''Failed to update email''), snd ?ru)"
    using error_entries_end_the_operation [THEN conjunct2, THEN conjunct2, THEN conjunct1,
        rule_format, OF conjI [OF u3 entries]] .
  have updated: "updateEmailKeywords (sendHost ?done) ''acc1'' ''e1'' [(''$seen'', JBool True)]
                   world0 = (Inr draftCreated, snd ?rd)"
    using error_entries_end_the_operation [THEN conjunct2, THEN conjunct2, THEN conjunct2,
        rule_format, OF conjI [OF d3 entries]] .
  show ?thesis
    using send create update updated by simp
qed

text \<open>
  C5 as stated fails: the server answers the keyword update with an \<open>error\<close> entry
  whose payload gives the type \<open>invalidArguments\<close> and a description, and the operation
  ends with the fixed message, not with an error carrying that payload; and a response
  whose first entry is \<open>Email/set\<close> and whose second is \<open>error\<close> is taken as success.
\<close>

theorem error_payload_counterexample:
  "fst (updateEmailKeywords (sendHost [(''error'', serverError, ''c1'')])
          ''acc1'' ''e1'' [(''$seen'', JBool True)] world0)
     = Inl (Error ''Failed to update email'')
   \<and> Error ''Failed to update email'' \<noteq> JmapError serverError
   \<and> fst (updateEmailKeywords
            (sendHost [(''Email/set'', [(''updated'', JObj [(''e1'', JNull)])], ''c1''),
                       (''error'', serverError, ''c2'')])
            ''acc1'' ''e1'' [(''$seen'', JBool True)] world0)
     = Inr [(''updated'', JObj [(''e1'', JNull)])]"
  by (simp add: server_defs io_defs transport_defs json_defs send_defs send_example_defs
      updateEmailKeywords_def serverError_def)

section \<open>Sending without a Drafts mailbox\<close>

text \<open>
  C6. When the mailbox list holds no mailbox with role \<open>drafts\<close>, \<open>sendEmail\<close> ends
  with \<open>Drafts mailbox not found\<close>, and the only request it has sent is the
  \<open>Mailbox/get\<close> of the lookup: no request carrying an \<open>Email/set\<close> was issued.
\<close>

theorem sendEmail_without_drafts:
  assumes lookup: "getMailboxes h accountId w = (Inr mailboxes, w')"
    and none: "\<forall>mb\<in>set mailboxes. field mb ''role'' \<noteq> JStr ''drafts''"
  shows "sendEmail h accountId email identityId w = (Inl (Error ''Drafts mailbox not found''), w')
       \<and> sent w' = sent w @ [ApiPost \<lparr>usingCaps = [CORE, MAIL],
                                methodCalls = [(''Mailbox/get'', [(''accountId'', JStr accountId)],
                                                ''c1'')]\<rparr>]
       \<and> (\<forall>r\<in>set (drop (length (sent w)) (sent w')). \<not> carriesMethod ''Email/set'' r)"
proof -
  have "find (\<lambda>mb. field mb ''role'' = JStr ''drafts'') mailboxes = None"
    using none by (simp add: find_None_iff)
  then have found: "findMailboxByRole h accountId ''drafts'' w = (Inr None, w')"
    using lookup by (simp add: findMailboxByRole_def io_bind_def io_return_def)
  have result: "sendEmail h accountId email identityId w
                  = (Inl (Error ''Drafts mailbox not found''), w')"
    using found by (simp add: sendEmail_def io_bind_def io_throw_def)
  have log: "sent w' = sent w @ [ApiPost \<lparr>usingCaps = [CORE, MAIL],
               methodCalls = [(''Mailbox/get'', [(''accountId'', JStr accountId)], ''c1'')]\<rparr>]"
    using getMailboxes_world [OF lookup] by simp
  then have "\<forall>r\<in>set (drop (length (sent w)) (sent w')). \<not> carriesMethod ''Email/set'' r"
    by (simp add: carriesMethod_def)
  with result log show ?thesis by simp
qed

theorem sendEmail_without_drafts_witness:
  "sendEmail (scriptedHost exampleSession (mailboxScript [inboxMailbox])) ''acc1'' [] ''id1'' world0
     = (Inl (Error ''Drafts mailbox not found''),
        \<lparr>lastProcessedTime = JUndefined,
          sent = [ApiPost \<lparr>usingCaps = [CORE, MAIL],
                    methodCalls = [(''Mailbox/get'', [(''accountId'', JStr ''acc1'')], ''c1'')]\<rparr>]\<rparr>)
   \<and> \<not> carriesMethod ''Email/set''
        (ApiPost \<lparr>usingCaps = [CORE, MAIL],
           methodCalls = [(''Mailbox/get'', [(''accountId'', JStr ''acc1'')], ''c1'')]\<rparr>)"
proof -
  let ?h = "scriptedHost exampleSession (mailboxScript [inboxMailbox])"
  let ?w' = "\<lparr>lastProcessedTime = JUndefined,
          sent = [ApiPost \<lparr>usingCaps = [CORE, MAIL],
                    methodCalls = [(''Mailbox/get'', [(''accountId'', JStr ''acc1'')], ''c1'')]\<rparr>]\<rparr>"
  have lookup: "getMailboxes ?h ''acc1'' world0 = (Inr [inboxMailbox], ?w')"
    by (simp add: server_defs io_defs transport_defs json_defs send_defs)
  have none: "\<forall>mb\<in>set [inboxMailbox]. field mb ''role'' \<noteq> JStr ''drafts''"
    by (simp add: inboxMailbox_def field_def)
  show ?thesis
    using sendEmail_without_drafts [OF lookup none, of "[]" "''id1''"]
    by (simp add: world0_def)
qed

section \<open>The primary account\<close>

text \<open>
  C7. Given the session, \<open>getPrimaryAccountId\<close> returns the entry of
  \<open>primaryAccounts\<close> for the mail capability when it is present (a non-empty id, which
  is how the code tests it); otherwise, when \<open>accounts\<close> has a key, it returns the
  first key of \<open>Object.keys(accounts)\<close>, a key of \<open>accounts\<close>; and it ends with
  \<open>No JMAP account found\<close> exactly when \<open>accounts\<close> is empty and there is no such entry.
\<close>

theorem getPrimaryAccountId_resolution:
  assumes session: "getJmapSession h w = (Inr session, w')"
  shows "(primaryAccounts session = Some primary
            \<and> map_of primary ''urn:ietf:params:jmap:mail'' = Some a \<and> a \<noteq> [] \<longrightarrow>
            getPrimaryAccountId h w = (Inr a, w'))
       \<and> ((primaryAccounts session = None
             \<or> (\<exists>primary. primaryAccounts session = Some primary
                   \<and> (map_of primary ''urn:ietf:params:jmap:mail'' = None
                      \<or> map_of primary ''urn:ietf:params:jmap:mail'' = Some [])))
            \<and> accounts session \<noteq> [] \<longrightarrow>
            (\<exists>k ks. objectKeys (accounts session) = k # ks
                   \<and> k \<in> fst ` set (accounts session)
                   \<and> getPrimaryAccountId h w = (Inr k, w')))
       \<and> (getPrimaryAccountId h w = (Inl (Error ''No JMAP account found''), w')
            \<longleftrightarrow> accounts session = []
                \<and> (primaryAccounts session = None
             \<or> (\<exists>primary. primaryAccounts session = Some primary
                   \<and> (map_of primary ''urn:ietf:params:jmap:mail'' = None
                      \<or> map_of primary ''urn:ietf:params:jmap:mail'' = Some []))))"
proof -
  define entry where
    "entry = (case primaryAccounts session of
                None \<Rightarrow> None
              | Some primary \<Rightarrow> map_of primary ''urn:ietf:params:jmap:mail'')"
  have present: "entry = Some a"
    if "primaryAccounts session = Some primary" and "map_of primary ''urn:ietf:params:jmap:mail'' = Some a"
    using that by (simp add: entry_def)
  have absent: "(primaryAccounts session = None
             \<or> (\<exists>primary. primaryAccounts session = Some primary
                   \<and> (map_of primary ''urn:ietf:params:jmap:mail'' = None
                      \<or> map_of primary ''urn:ietf:params:jmap:mail'' = Some []))) \<longleftrightarrow> entry = None \<or> entry = Some []"
    by (auto simp: entry_def split: option.splits)
  have run: "getPrimaryAccountId h w =
      (if (case entry of None \<Rightarrow> False | Some a \<Rightarrow> a \<noteq> [])
       then (Inr (the entry), w')
       else (case objectKeys (accounts session) of
               k # _ \<Rightarrow> (Inr k, w')
             | [] \<Rightarrow> (Inl (Error ''No JMAP account found''), w')))"
    using session
    by (simp add: getPrimaryAccountId_def MAIL_def entry_def io_bind_def io_return_def
          io_throw_def Let_def
        split: option.splits list.splits)
  have first: "getPrimaryAccountId h w = (Inr a, w')"
    if "primaryAccounts session = Some primary" and "map_of primary ''urn:ietf:params:jmap:mail'' = Some a"
      and "a \<noteq> []"
    using present [OF that(1,2)] that(3) by (simp add: run)
  have fallback: "getPrimaryAccountId h w =
      (case objectKeys (accounts session) of
         k # _ \<Rightarrow> (Inr k, w')
       | [] \<Rightarrow> (Inl (Error ''No JMAP account found''), w'))"
    if "entry = None \<or> entry = Some []"
    using that by (auto simp: run)
  have second: "\<exists>k ks. objectKeys (accounts session) = k # ks
                   \<and> k \<in> fst ` set (accounts session)
                   \<and> getPrimaryAccountId h w = (Inr k, w')"
    if none: "entry = None \<or> entry = Some []" and some: "accounts session \<noteq> []"
  proof -
    from some obtain k ks where ks: "objectKeys (accounts session) = k # ks"
      using objectKeys_Nil_iff [of "accounts session"]
      by (cases "objectKeys (accounts session)") auto
    then have "k \<in> set (objectKeys (accounts session))" by simp
    then have "k \<in> fst ` set (accounts session)" by (simp only: set_objectKeys)
    with ks fallback [OF none] show ?thesis by simp
  qed
  have third: "getPrimaryAccountId h w = (Inl (Error ''No JMAP account found''), w')
            \<longleftrightarrow> accounts session = [] \<and> (entry = None \<or> entry = Some [])"
  proof (cases "entry = None \<or> entry = Some []")
    case True
    show ?thesis
      using True fallback [OF True] objectKeys_Nil_iff [of "accounts session"]
      by (auto split: list.splits)
  next
    case False
    then show ?thesis by (auto simp: run)
  qed
  show ?thesis
    unfolding absent using first second third by blast
qed

text \<open>
  Four sessions: one whose mail entry names its only account; one whose mail entry
  \<open>ghost\<close> is no key of its accounts \<open>b\<close> and \<open>7\<close>, where the entry is returned all the
  same; one without a mail entry whose accounts were added as \<open>b\<close> then \<open>7\<close>, so that
  \<open>Object.keys\<close> lists \<open>7\<close> first; one with neither entry nor account.
\<close>

theorem getPrimaryAccountId_resolution_witness:
  "getPrimaryAccountId (sessionHost exampleSession) world0
      = (Inr ''acc1'', \<lparr>lastProcessedTime = JUndefined, sent = [SessionGet]\<rparr>)
   \<and> getPrimaryAccountId (sessionHost ghostSession) world0
      = (Inr ''ghost'', \<lparr>lastProcessedTime = JUndefined, sent = [SessionGet]\<rparr>)
   \<and> ''ghost'' \<notin> fst ` set (accounts ghostSession)
   \<and> getPrimaryAccountId (sessionHost numericSession) world0
      = (Inr ''7'', \<lparr>lastProcessedTime = JUndefined, sent = [SessionGet]\<rparr>)
   \<and> getPrimaryAccountId (sessionHost (numericSession\<lparr>accounts := []\<rparr>)) world0
      = (Inl (Error ''No JMAP account found''),
         \<lparr>lastProcessedTime = JUndefined, sent = [SessionGet]\<rparr>)"
proof -
  have got: "getJmapSession (sessionHost session) world0
               = (Inr session, \<lparr>lastProcessedTime = JUndefined, sent = [SessionGet]\<rparr>)"
    for session
    by (simp add: getJmapSession_def sessionHost_def scriptedHost_def world0_def)
  have k2: "objectKeys (accounts numericSession) = [''7'', ''b'']"
    by (simp add: objectKeys_def numericSession_def arrayIndex_def isDigit_def
        decimalValue_def Let_def)
  show ?thesis
    using getPrimaryAccountId_resolution [OF got, of exampleSession
        "[(''urn:ietf:params:jmap:mail'', ''acc1'')]" "''acc1''"]
      getPrimaryAccountId_resolution [OF got, of ghostSession
        "[(''urn:ietf:params:jmap:mail'', ''ghost'')]" "''ghost''"]
      getPrimaryAccountId_resolution [OF got, of numericSession "[]" "''x''"]
      getPrimaryAccountId_resolution [OF got, of "numericSession\<lparr>accounts := []\<rparr>"
        "[]" "''x''"]
      k2
    by (simp add: ghostSession_def numericSession_def exampleSession_def)
qed

section \<open>The MIME filter\<close>

text \<open>
  C8. For a filter of the parsed filter list (the entries of the comma-separated option,
  trimmed, the empty ones dropped): when its lower-cased form ends with \<open>/*\<close> the matcher
  is true exactly when the lower-cased type starts with the lower-cased filter without
  its last character, the \<open>*\<close>; otherwise it is true exactly when the lower-cased type and
  the lower-cased filter are equal. For any filter, the matcher reads it trimmed. The
  three examples hold. With an empty filter list the MIME stage passes every attachment,
  and the attachment loop, when its downloads succeed, returns one item for every
  attachment that the inline rule keeps.
\<close>

theorem mime_filter_matching:
  "(matchesMimeType m f \<longleftrightarrow>
      (if endsWith (toLowerCase (trim f)) ''/*''
       then startsWith (toLowerCase m) (butlast (toLowerCase (trim f)))
       else toLowerCase m = toLowerCase (trim f)))
   \<and> (f \<in> set (parseMimeFilters raw) \<and> endsWith (toLowerCase f) ''/*'' \<longrightarrow>
        (matchesMimeType m f \<longleftrightarrow> startsWith (toLowerCase m) (butlast (toLowerCase f))))
   \<and> (f \<in> set (parseMimeFilters raw) \<and> \<not> endsWith (toLowerCase f) ''/*'' \<longrightarrow>
        (matchesMimeType m f \<longleftrightarrow> toLowerCase m = toLowerCase f))
   \<and> matchesMimeType ''image/png'' ''image/*''
   \<and> \<not> matchesMimeType ''image/png'' ''image/jpeg''
   \<and> matchesMimeType ''IMAGE/PNG'' ''image/png''
   \<and> parseMimeFilters [] = []
   \<and> mimeStage [] attachment = Inr True
   \<and> ((\<forall>log. \<exists>s. sessionReply h log = Inr s)
       \<and> (\<forall>log a b n t. \<exists>buffer. blobReply h log a b n t = Inr buffer) \<longrightarrow>
       (\<exists>items w'. attachmentLoop h accountId email inline [] attachments i w = (Inr items, w')
           \<and> map (\<lambda>item. field (json item) ''fileName'') items
             = map (\<lambda>a. field a ''name'')
                 (filter (\<lambda>a. \<not> (truthy (field a ''isInline'') \<and> \<not> inline)) attachments)))"
proof -
  have general: "matchesMimeType m f \<longleftrightarrow>
      (if endsWith (toLowerCase (trim f)) ''/*''
       then startsWith (toLowerCase m) (butlast (toLowerCase (trim f)))
       else toLowerCase m = toLowerCase (trim f))"
    by (rule matchesMimeType_trim)
  have wildcard: "matchesMimeType m f \<longleftrightarrow> startsWith (toLowerCase m) (butlast (toLowerCase f))"
    if "f \<in> set (parseMimeFilters raw)" and "endsWith (toLowerCase f) ''/*''"
    using that parseMimeFilters_trimmed [of f raw] general by simp
  have exact: "matchesMimeType m f \<longleftrightarrow> toLowerCase m = toLowerCase f"
    if "f \<in> set (parseMimeFilters raw)" and "\<not> endsWith (toLowerCase f) ''/*''"
    using that parseMimeFilters_trimmed [of f raw] general by simp
  have ex1: "matchesMimeType ''image/png'' ''image/*''"
    by (simp add: matchesMimeType_def toLowerCase_def toLowerCase_unit_def trim_def
        isWhiteSpace_def startsWith_def endsWith_def)
  have ex2: "\<not> matchesMimeType ''image/png'' ''image/jpeg''"
    by (simp add: matchesMimeType_def toLowerCase_def toLowerCase_unit_def trim_def
        isWhiteSpace_def startsWith_def endsWith_def)
  have ex3: "matchesMimeType ''IMAGE/PNG'' ''image/png''"
    by (simp add: matchesMimeType_def toLowerCase_def toLowerCase_unit_def trim_def
        isWhiteSpace_def startsWith_def endsWith_def)
  have empty: "parseMimeFilters [] = []" "mimeStage [] attachment = Inr True"
    by (simp_all add: parseMimeFilters_def mimeStage_def)
  have loop: "\<exists>items w'. attachmentLoop h accountId email inline [] attachments i w
                = (Inr items, w')
           \<and> map (\<lambda>item. field (json item) ''fileName'') items
             = map (\<lambda>a. field a ''name'')
                 (filter (\<lambda>a. \<not> (truthy (field a ''isInline'') \<and> \<not> inline)) attachments)"
    if "\<forall>log. \<exists>s. sessionReply h log = Inr s"
      and "\<forall>log a b n t. \<exists>buffer. blobReply h log a b n t = Inr buffer"
    using that by (rule attachmentLoop_no_filter)
  from general wildcard exact ex1 ex2 ex3 empty loop show ?thesis
    by blast
qed

theorem mime_filter_matching_witness:
  "parseMimeFilters ''image/*, Text/Plain'' = [''image/*'', ''Text/Plain'']
   \<and> matchesMimeType ''IMAGE/png'' ''image/*''
   \<and> matchesMimeType ''text/plain'' ''Text/Plain''
   \<and> \<not> matchesMimeType ''text/html'' ''Text/Plain''
   \<and> (\<exists>items w'. attachmentLoop (mailHost []) ''acc1'' [] True []
                     [reportAttachment, logoAttachment] 0 world0 = (Inr items, w')
         \<and> map (\<lambda>item. field (json item) ''fileName'') items
             = [JStr ''report.pdf'', JStr ''logo.png''])"
proof -
  let ?raw = "''image/*, Text/Plain''"
  have parsed: "parseMimeFilters ?raw = [''image/*'', ''Text/Plain'']"
    by (simp add: parseMimeFilters_def trim_def isWhiteSpace_def)
  have in1: "''image/*'' \<in> set (parseMimeFilters ?raw)"
    and in2: "''Text/Plain'' \<in> set (parseMimeFilters ?raw)"
    by (simp_all add: parsed)
  have wild: "endsWith (toLowerCase ''image/*'') ''/*''"
    and plain: "\<not> endsWith (toLowerCase ''Text/Plain'') ''/*''"
    by (simp_all add: endsWith_def toLowerCase_def toLowerCase_unit_def)
  have starts: "startsWith (toLowerCase ''IMAGE/png'') (butlast (toLowerCase ''image/*''))"
    by (simp add: startsWith_def toLowerCase_def toLowerCase_unit_def)
  have same: "toLowerCase ''text/plain'' = toLowerCase ''Text/Plain''"
    and other: "toLowerCase ''text/html'' \<noteq> toLowerCase ''Text/Plain''"
    by (simp_all add: toLowerCase_def toLowerCase_unit_def)
  have server: "\<forall>log. \<exists>s. sessionReply (mailHost []) log = Inr s"
    "\<forall>log a b n t. \<exists>buffer. blobReply (mailHost []) log a b n t = Inr buffer"
    by (simp_all add: mailHost_def scriptedHost_def)
  have kept: "map (\<lambda>a. field a ''name'')
                (filter (\<lambda>a. \<not> (truthy (field a ''isInline'') \<and> \<not> True))
                   [reportAttachment, logoAttachment])
              = [JStr ''report.pdf'', JStr ''logo.png'']"
    by (simp add: reportAttachment_def logoAttachment_def field_def)
  note wildcard = mime_filter_matching [where f = "''image/*''" and raw = ?raw
      and m = "''IMAGE/png''", THEN conjunct2, THEN conjunct1, rule_format, OF conjI [OF in1 wild]]
  note exact = mime_filter_matching [where f = "''Text/Plain''" and raw = ?raw,
      THEN conjunct2, THEN conjunct2, THEN conjunct1, rule_format, OF conjI [OF in2 plain]]
  note loop = mime_filter_matching [where h = "mailHost []" and inline = True
      and attachments = "[reportAttachment, logoAttachment]" and accountId = "''acc1''"
      and email = "[]" and i = 0 and w = world0,
      THEN conjunct2, THEN conjunct2, THEN conjunct2, THEN conjunct2, THEN conjunct2,
      THEN conjunct2, THEN conjunct2, THEN conjunct2, rule_format,
      OF conjI [OF server]]
  show ?thesis
    using wildcard exact [of "''text/plain''"] exact [of "''text/html''"] loop
      parsed starts same other kept
    by simp
qed

section \<open>Marking an email read or unread\<close>

text \<open>
  C10. \<open>markAsRead\<close> and \<open>markAsUnread\<close> send exactly one request, an
  \<open>Email/set\<close> whose update patch for the email has the single key \<open>keywords\<close>
  with the whole map \<open>{$seen: true}\<close> (or \<open>{$seen: false}\<close>) as its value: no
  \<open>keywords/$seen\<close> path key, and no entry for any other keyword.
\<close>

theorem markAs_replaces_keywords:
  "sent (snd (execute_markAsRead h accountId emailId w)) =
     sent w @ [ApiPost \<lparr>usingCaps = [CORE, MAIL],
                 methodCalls =
                   [(''Email/set'',
                     [(''accountId'', JStr accountId),
                      (''update'',
                       JObj [(emailId, JObj [(''keywords'', JObj [(''$seen'', JBool True)])])])],
                     ''c1'')]\<rparr>]
   \<and> sent (snd (execute_markAsUnread h accountId emailId w)) =
     sent w @ [ApiPost \<lparr>usingCaps = [CORE, MAIL],
                 methodCalls =
                   [(''Email/set'',
                     [(''accountId'', JStr accountId),
                      (''update'',
                       JObj [(emailId, JObj [(''keywords'', JObj [(''$seen'', JBool False)])])])],
                     ''c1'')]\<rparr>]"
  by (auto simp: execute_markAsRead_def execute_markAsUnread_def updateEmailKeywords_def
        io_bind_def jmapApiRequest_def io_throw_def io_return_def Let_def defaultUsing_def
      split: sum.splits list.splits prod.splits)

end
